theory Spec2Isabelle
  imports Complex_Main "HOL-Library.Word"
begin

section \<open>Data model of the texture translator\<close>

text \<open>
  The translator (\<^verbatim>\<open>shader/src/translator/texture.cpp\<close>) turns one decoded USSE texture
  instruction into calls on the SPIR-V builder and on the operand model (\<^verbatim>\<open>load\<close>,
  \<^verbatim>\<open>store\<close>). The builder and the operand model are collaborators outside the
  sources at hand, so the model records every call made on them, in program order, as a
  trace of events; what a call returns is given by the context.
\<close>

text \<open>\<^verbatim>\<open>spv::Id\<close> is an unsigned integer; \<^verbatim>\<open>spv::NoResult\<close> is the id 0 of the
  SPIR-V builder library.\<close>

type_synonym Id = nat

definition NoResult :: Id where
  "NoResult = 0"

text \<open>\<^verbatim>\<open>spv::ImageOperandsLodMask\<close> and \<^verbatim>\<open>spv::ImageOperandsGradMask\<close> of the SPIR-V
  headers.\<close>

definition ImageOperandsLodMask :: Id where
  "ImageOperandsLodMask = 2"

definition ImageOperandsGradMask :: Id where
  "ImageOperandsGradMask = 4"

text \<open>Modelled from the spec: the immediate typedefs \<^verbatim>\<open>Imm1\<close>, \<^verbatim>\<open>Imm2\<close>, \<^verbatim>\<open>Imm4\<close>,
  \<^verbatim>\<open>Imm7\<close> are declared in \<^verbatim>\<open>usse_types.h\<close>, which is not among the sources. The spec
  gives them as unsigned immediates of 1, 2, 4 and 7 bits; a C++ parameter cannot be
  narrower than a byte, so each is held in an unsigned byte and \<^verbatim>\<open>dim += 1\<close> does not
  wrap at 3.\<close>

type_synonym Imm1 = "8 word"
type_synonym Imm2 = "8 word"
type_synonym Imm4 = "8 word"
type_synonym Imm7 = "8 word"

text \<open>Modelled from the spec: the enumeration \<^verbatim>\<open>DataType\<close> and \<^verbatim>\<open>is_integer_data_type\<close>
  belong to \<^verbatim>\<open>usse_types.h\<close>. The sources name the enumerators F32, F16, C10 and UNK;
  the spec speaks of element types that are "an integer kind". The integer kinds are
  \<open>IntKind k\<close> (signedness and width are not looked at by the translator), any other
  enumerator is \<open>OtherKind k\<close>.\<close>

datatype DataType = F32 | F16 | C10 | UNK | IntKind nat | OtherKind nat

fun is_integer_data_type :: "DataType \<Rightarrow> bool" where
  "is_integer_data_type (IntKind k) = True"
| "is_integer_data_type t = False"

text \<open>The register banks the sources name, and the others.\<close>

datatype RegisterBank = PRIMATTR | TEMP | OtherBank nat

text \<open>Modelled from the spec: \<^verbatim>\<open>SWIZZLE_CHANNEL_4_DEFAULT\<close> is a macro of
  \<^verbatim>\<open>usse_types.h\<close>; the spec calls it the default identity swizzle.\<close>

datatype SwizzleChannel = C_X | C_Y | C_Z | C_W

definition SWIZZLE_CHANNEL_4_DEFAULT :: "SwizzleChannel list" where
  "SWIZZLE_CHANNEL_4_DEFAULT = [C_X, C_Y, C_Z, C_W]"

text \<open>\<^verbatim>\<open>struct Operand\<close>: the fields the translator reads and writes.\<close>

record Operand =
  num :: nat
  bank :: RegisterBank
  type :: DataType
  swizzle :: "SwizzleChannel list"

text \<open>\<^verbatim>\<open>struct SamplerInfo\<close> (fields \<^verbatim>\<open>id\<close>, \<^verbatim>\<open>component_type\<close>,
  \<^verbatim>\<open>component_count\<close>; prefixed here, since the query record has fields of the same
  names).\<close>

record SamplerInfo =
  s_id :: Id
  s_component_type :: DataType
  s_component_count :: nat

text \<open>\<^verbatim>\<open>Coord\<close> is a pair of an id and the data type of the coordinate (an \<^verbatim>\<open>int\<close> in
  the source, cast from and to \<^verbatim>\<open>DataType\<close>).\<close>

type_synonym Coord = "Id \<times> DataType"

text \<open>One entry of \<^verbatim>\<open>NonDependentTextureQueryCallInfos\<close>; \<^verbatim>\<open>store_type\<close> is an
  \<^verbatim>\<open>int\<close> in the source that is cast to \<^verbatim>\<open>DataType\<close> at once.\<close>

record TextureQuery =
  q_store_type :: DataType
  q_component_type :: DataType
  q_prod_pos :: int
  q_coord :: Coord
  q_sampler :: Id
  q_dest_offset :: nat
  q_component_count :: nat

text \<open>The SPIR-V opcodes the translator passes to \<^verbatim>\<open>createOp\<close>.\<close>

datatype Op =
    OpVectorExtractDynamic
  | OpVectorShuffle
  | OpImageSampleImplicitLod
  | OpImageSampleProjImplicitLod
  | OpImageSampleExplicitLod

text \<open>The calls on the collaborators. \<open>CreateOp\<close>, \<open>CreateLoad\<close>,
  \<open>CreateCompositeConstruct\<close> and \<open>SetLine\<close> are calls on the builder \<^verbatim>\<open>m_b\<close>;
  \<open>Load\<close> and \<open>Store\<close> are the operand model's \<^verbatim>\<open>load(operand, mask, offset)\<close> and
  \<^verbatim>\<open>store(operand, value, mask)\<close>; \<open>UnpackOne\<close> and \<open>ConvertToInt\<close> are
  \<^verbatim>\<open>utils::unpack_one\<close> and \<^verbatim>\<open>utils::convert_to_int\<close>; \<open>LogError\<close> is
  \<^verbatim>\<open>LOG_ERROR\<close> with its format string and arguments; \<open>LogDisasm\<close> is the
  \<^verbatim>\<open>LOG_DISASM\<close> line of \<^verbatim>\<open>smp\<close> with the normalised dimension, the operands
  \<^verbatim>\<open>dest\<close>, \<^verbatim>\<open>src0\<close> with the coordinate mask, \<^verbatim>\<open>src1\<close>, and \<^verbatim>\<open>src2\<close> when
  \<^verbatim>\<open>lod_mode\<close> is not 0.\<close>

datatype event =
    CreateOp Op Id "Id list"
  | CreateLoad Id
  | CreateCompositeConstruct Id "Id list"
  | SetLine nat
  | Load Operand nat nat
  | Store Operand Id Imm4
  | UnpackOne Id DataType
  | ConvertToInt Id DataType bool
  | LogError string "nat list"
  | LogDisasm Imm2 Operand Operand nat Operand "Operand option"

text \<open>The context of a translation: the members of the visitor that the translator reads
  (\<^verbatim>\<open>type_f32\<close>, \<^verbatim>\<open>type_f32_v\<close>, \<^verbatim>\<open>m_second_program\<close>,
  \<^verbatim>\<open>m_spirv_params.samplers\<close>, \<^verbatim>\<open>m_recompiler.cur_pc\<close>), and what the collaborators
  answer. \<open>result_of c tr\<close> is the id returned by the call that is last in the trace
  \<open>tr\<close>; the queries \<^verbatim>\<open>isPointer\<close>, \<^verbatim>\<open>getNumComponents\<close> and the type class
  inspected by the \<^verbatim>\<open>assert\<close> of \<^verbatim>\<open>do_fetch_texture\<close> depend on what has been built
  so far. Type and constant makers of the builder return the same id for the same
  arguments. \<open>default_operand\<close> is a default-constructed \<^verbatim>\<open>Operand\<close>;
  \<^verbatim>\<open>decode_src0\<close> and \<^verbatim>\<open>decode_src12\<close> are the pure helpers of
  \<^verbatim>\<open>usse_decoder_helpers.h\<close>.\<close>

record ctx =
  result_of :: "event list \<Rightarrow> Id"
  isPointer :: "event list \<Rightarrow> Id \<Rightarrow> bool"
  getNumComponents :: "event list \<Rightarrow> Id \<Rightarrow> nat"
  contained_type_is_float :: "event list \<Rightarrow> Id \<Rightarrow> bool"
  makeFloatType :: "nat \<Rightarrow> Id"
  makeVectorType :: "Id \<Rightarrow> nat \<Rightarrow> Id"
  makeIntConstant :: "int \<Rightarrow> Id"
  makeFloatConstant :: "real \<Rightarrow> Id"
  type_f32 :: Id
  type_f32_v :: "nat \<Rightarrow> Id"
  m_second_program :: bool
  samplers :: "nat \<rightharpoonup> SamplerInfo"
  cur_pc :: nat
  default_operand :: Operand
  decode_src0 :: "Operand \<Rightarrow> Imm7 \<Rightarrow> Imm1 \<Rightarrow> Imm1 \<Rightarrow> bool \<Rightarrow> nat \<Rightarrow> bool \<Rightarrow> Operand"
  decode_src12 :: "Operand \<Rightarrow> Imm7 \<Rightarrow> Imm2 \<Rightarrow> Imm1 \<Rightarrow> bool \<Rightarrow> nat \<Rightarrow> bool \<Rightarrow> Operand"

text \<open>A call that returns an id: the call is appended to the trace, the context gives
  its result.\<close>

definition emit :: "ctx \<Rightarrow> event \<Rightarrow> event list \<Rightarrow> Id \<times> event list" where
  "emit c e tr = (result_of c (tr @ [e]), tr @ [e])"

text \<open>What stops a translation: the \<^verbatim>\<open>assert\<close> of \<^verbatim>\<open>do_fetch_texture\<close> (debug
  builds), and a read of \<^verbatim>\<open>tb_dest_fmt\<close> past its four entries.\<close>

datatype error = AssertionFailed | IndexOutOfRange

section \<open>The texture-fetch emitter\<close>

text \<open>Lines 35 to 49 of \<^verbatim>\<open>do_fetch_texture\<close>: a coordinate that is not F32 is loaded,
  its first component extracted and unpacked, and cut to two components when it has
  more; a pointer is loaded.\<close>

definition fetch_coord :: "ctx \<Rightarrow> Coord \<Rightarrow> event list \<Rightarrow> Id \<times> event list" where
  "fetch_coord c coord tr =
    (let (coord_id, tr1) =
       (if snd coord \<noteq> F32 then
          (let (ld, t1) = emit c (CreateLoad (fst coord)) tr;
               (ex, t2) = emit c (CreateOp OpVectorExtractDynamic (type_f32 c)
                                    [ld, makeIntConstant c 0]) t1;
               (up, t3) = emit c (UnpackOne ex (snd coord)) t2
           in if getNumComponents c t3 up > 2
              then emit c (CreateOp OpVectorShuffle (makeVectorType c (type_f32 c) 2)
                             [up, up, 0, 1]) t3
              else (up, t3))
        else (fst coord, tr))
     in if isPointer c tr1 coord_id then emit c (CreateLoad coord_id) tr1
        else (coord_id, tr1))"

text \<open>Lines 53 to 66: the choice of the sampling instruction. The texture is loaded
  first (it is the first element of the operand list), then the instruction is created.
  With an LOD operand and a mode other than 2 and 3 nothing is created and the result
  stays \<^verbatim>\<open>spv::NoResult\<close>.\<close>

definition image_sample :: "ctx \<Rightarrow> Id \<Rightarrow> Id \<Rightarrow> int \<Rightarrow> Id \<Rightarrow> Id \<Rightarrow> event list \<Rightarrow> Id \<times> event list" where
  "image_sample c tex coord_id lod_mode extra1 extra2 tr =
    (if extra1 = NoResult then
       (if lod_mode = 4 then
          (let (t, tr1) = emit c (CreateLoad tex) tr
           in emit c (CreateOp OpImageSampleProjImplicitLod (type_f32_v c 4) [t, coord_id]) tr1)
        else
          (let (t, tr1) = emit c (CreateLoad tex) tr
           in emit c (CreateOp OpImageSampleImplicitLod (type_f32_v c 4) [t, coord_id]) tr1))
     else
       (if lod_mode = 2 then
          (let (t, tr1) = emit c (CreateLoad tex) tr
           in emit c (CreateOp OpImageSampleExplicitLod (type_f32_v c 4)
                        [t, coord_id, ImageOperandsLodMask, extra1]) tr1)
        else if lod_mode = 3 then
          (let (t, tr1) = emit c (CreateLoad tex) tr
           in emit c (CreateOp OpImageSampleExplicitLod (type_f32_v c 4)
                        [t, coord_id, ImageOperandsGradMask, extra1, extra2]) tr1)
        else (NoResult, tr)))"

text \<open>Lines 68 to 71: an integer destination type converts the sample.\<close>

definition convert_result :: "ctx \<Rightarrow> DataType \<Rightarrow> Id \<times> event list \<Rightarrow> Id \<times> event list" where
  "convert_result c dest_type r =
    (if is_integer_data_type dest_type
     then emit c (ConvertToInt (fst r) dest_type True) (snd r)
     else r)"

text \<open>\<^verbatim>\<open>do_fetch_texture\<close>, lines 34 to 72.\<close>

definition do_fetch_texture ::
  "ctx \<Rightarrow> Id \<Rightarrow> Coord \<Rightarrow> DataType \<Rightarrow> int \<Rightarrow> Id \<Rightarrow> Id \<Rightarrow> event list \<Rightarrow> error + (Id \<times> event list)" where
  "do_fetch_texture c tex coord dest_type lod_mode extra1 extra2 tr =
    (let (coord_id, tr1) = fetch_coord c coord tr
     in if \<not> contained_type_is_float c tr1 coord_id then Inl AssertionFailed
        else Inr (convert_result c dest_type
                    (image_sample c tex coord_id lod_mode extra1 extra2 tr1)))"

section \<open>The SMP handler\<close>

text \<open>The decoded fields that \<^verbatim>\<open>smp\<close> receives, under the names of its parameters.
  \<^verbatim>\<open>pred\<close> is the number of the \<^verbatim>\<open>ExtPredicate\<close> enumerator; it and \<^verbatim>\<open>skipinv\<close>,
  \<^verbatim>\<open>nosched\<close>, \<^verbatim>\<open>syncstart\<close>, \<^verbatim>\<open>minpack\<close>, \<^verbatim>\<open>mask_count\<close>, \<^verbatim>\<open>drc_sel\<close> do not
  influence what is emitted.\<close>

record smp_fields =
  pred :: nat
  skipinv :: Imm1
  nosched :: Imm1
  syncstart :: Imm1
  minpack :: Imm1
  src0_ext :: Imm1
  src1_ext :: Imm1
  src2_ext :: Imm1
  fconv_type :: Imm2
  mask_count :: Imm2
  dim :: Imm2
  lod_mode :: Imm2
  dest_use_pa :: bool
  sb_mode :: Imm2
  src0_type :: Imm2
  src0_bank :: Imm1
  drc_sel :: Imm2
  src1_bank :: Imm2
  src2_bank :: Imm2
  dest_n :: Imm7
  src0_n :: Imm7
  src1_n :: Imm7
  src2_n :: Imm7

text \<open>Lines 136, 137 and 142: source 0, the coordinate.\<close>

definition smp_src0 :: "ctx \<Rightarrow> smp_fields \<Rightarrow> Operand" where
  "smp_src0 c f =
    (decode_src0 c (default_operand c) (src0_n f) (src0_bank f) (src0_ext f) True 8
       (m_second_program c))
    \<lparr>type := (if src0_type f = 0 then F32 else if src0_type f = 1 then F16 else C10),
     swizzle := SWIZZLE_CHANNEL_4_DEFAULT\<rparr>"

text \<open>Lines 139 and 141: source 1, whose register number is the sampler index.\<close>

definition smp_src1 :: "ctx \<Rightarrow> smp_fields \<Rightarrow> Operand" where
  "smp_src1 c f =
    (decode_src12 c (default_operand c) (src1_n f) (src1_bank f) (src1_ext f) True 8
       (m_second_program c))
    \<lparr>swizzle := SWIZZLE_CHANNEL_4_DEFAULT\<rparr>"

text \<open>Lines 203 and 204: source 2, the LOD or the gradients, typed as source 0.\<close>

definition smp_src2 :: "ctx \<Rightarrow> smp_fields \<Rightarrow> Operand" where
  "smp_src2 c f =
    (decode_src12 c (default_operand c) (src2_n f) (src2_bank f) (src2_ext f) True 8
       (m_second_program c))
    \<lparr>type := type (smp_src0 c f)\<rparr>"

text \<open>Lines 152 to 157 and the read at line 162. The table has four entries; a read
  past them has no defined result in C++ and is an error here.\<close>

definition tb_dest_fmt :: "DataType list" where
  "tb_dest_fmt = [F32, UNK, F16, F32]"

definition tb_dest_fmt_at :: "Imm2 \<Rightarrow> DataType option" where
  "tb_dest_fmt_at i =
    (if unat i < length tb_dest_fmt then Some (tb_dest_fmt ! unat i) else None)"

text \<open>Lines 143 and 160 to 165: the destination, with the entry \<open>t\<close> read from the
  table; UNK falls back to the component type of the sampler.\<close>

definition smp_dest :: "ctx \<Rightarrow> smp_fields \<Rightarrow> SamplerInfo \<Rightarrow> DataType \<Rightarrow> Operand" where
  "smp_dest c f sampler t =
    (let dest = (default_operand c)
           \<lparr>num := unat (dest_n f),
            bank := (if dest_use_pa f then PRIMATTR else TEMP),
            type := t,
            swizzle := SWIZZLE_CHANNEL_4_DEFAULT\<rparr>
     in if type dest = UNK then dest\<lparr>type := s_component_type sampler\<rparr> else dest)"

text \<open>Lines 170 to 175, on the dimension already turned to base 1.\<close>

definition coord_mask_of :: "Imm2 \<Rightarrow> nat" where
  "coord_mask_of d = (if d = 3 then 7 else if d = 1 then 1 else 3)"

text \<open>Lines 206 to 225: the loads of the extra operands, by \<^verbatim>\<open>lod_mode\<close> (not 0 here)
  and by the dimension \<open>d\<close>, which is 2 for a one-dimensional sample by now.\<close>

definition load_extras ::
  "ctx \<Rightarrow> Imm2 \<Rightarrow> Imm2 \<Rightarrow> Operand \<Rightarrow> event list \<Rightarrow> (Id \<times> Id) \<times> event list" where
  "load_extras c lm d src2 tr =
    (if lm = 2 then
       (let (extra1, tr1) = emit c (Load src2 1 0) tr in ((extra1, NoResult), tr1))
     else if lm = 3 then
       (if d = 2 then
          (let (extra1, tr1) = emit c (Load src2 3 0) tr;
               (extra2, tr2) = emit c (Load src2 12 0) tr1
           in ((extra1, extra2), tr2))
        else if d = 3 then
          (let (extra1, tr1) = emit c (Load src2 7 0) tr;
               (extra2, tr2) = emit c (Load src2 7 1) tr1
           in ((extra1, extra2), tr2))
        else ((NoResult, NoResult), tr))
     else ((NoResult, NoResult), tr))"

text \<open>Lines 177 and 178: the disassembly line. Source 2 is not decoded yet at this
  point, so the line shows a default-constructed operand for it.\<close>

definition smp_disasm :: "ctx \<Rightarrow> smp_fields \<Rightarrow> Operand \<Rightarrow> event" where
  "smp_disasm c f dest =
    LogDisasm (dim f + 1) dest (smp_src0 c f) (coord_mask_of (dim f + 1)) (smp_src1 c f)
      (if lod_mode f = 0 then None else Some (default_operand c))"

text \<open>Lines 177 to 184: the log line, \<^verbatim>\<open>setLine\<close>, and the load of the coordinate
  with the mask of the dimension.\<close>

definition smp_load_coord ::
  "ctx \<Rightarrow> smp_fields \<Rightarrow> Operand \<Rightarrow> event list \<Rightarrow> Id \<times> event list" where
  "smp_load_coord c f dest tr =
    emit c (Load (smp_src0 c f) (coord_mask_of (dim f + 1)) 0)
      (tr @ [smp_disasm c f dest, SetLine (cur_pc c)])"

text \<open>What \<^verbatim>\<open>smp\<close> has in hand at line 228, when it calls the fetch emitter.\<close>

record fetch_call =
  fc_sampler :: SamplerInfo
  fc_dest :: Operand
  fc_coord :: Id
  fc_extra1 :: Id
  fc_extra2 :: Id

datatype smp_stage = Return bool | Fetch fetch_call

text \<open>Lines 128 to 226 of \<^verbatim>\<open>smp\<close>: either the handler returns early, or it reaches the
  call of the fetch emitter. \<open>d\<close> is \<^verbatim>\<open>dim\<close> after \<^verbatim>\<open>dim += 1\<close>.\<close>

definition smp_operands ::
  "ctx \<Rightarrow> smp_fields \<Rightarrow> event list \<Rightarrow> error + (smp_stage \<times> event list)" where
  "smp_operands c f tr =
    (if lod_mode f \<noteq> 0 \<and> lod_mode f \<noteq> 2 \<and> lod_mode f \<noteq> 3 then
       Inr (Return True, tr @ [LogError ''Sampler LOD replace not implemented!'' []])
     else
       (case samplers c (num (smp_src1 c f)) of
          None \<Rightarrow>
            Inr (Return True,
                 tr @ [LogError ''Can't get the sampler (sampler doesn't exist!)'' []])
        | Some sampler \<Rightarrow>
            (case tb_dest_fmt_at (fconv_type f) of
               None \<Rightarrow> Inl IndexOutOfRange
             | Some t \<Rightarrow>
                 (let dest = smp_dest c f sampler t;
                      d = dim f + 1;
                      (coord, tr2) = smp_load_coord c f dest tr
                  in if coord = NoResult then
                       Inr (Return False, tr2 @ [LogError ''Coord not loaded'' []])
                     else
                       (let (coord, d, tr3) =
                              (if d = 1 then
                                 (let (v, t3) =
                                        emit c (CreateCompositeConstruct
                                                  (makeVectorType c (makeFloatType c 32) 2)
                                                  [coord, makeFloatConstant c 0]) tr2
                                  in (v, 2, t3))
                               else (coord, d, tr2));
                            ((extra1, extra2), tr4) =
                              (if lod_mode f \<noteq> 0
                               then load_extras c (lod_mode f) d (smp_src2 c f) tr3
                               else ((NoResult, NoResult), tr3))
                        in Inr (Fetch \<lparr>fc_sampler = sampler, fc_dest = dest,
                                       fc_coord = coord, fc_extra1 = extra1,
                                       fc_extra2 = extra2\<rparr>, tr4))))))"

text \<open>Line 230 and line 98: the write mask, \<^verbatim>\<open>(1U << component_count) - 1\<close> computed
  on 32 bits and narrowed to \<^verbatim>\<open>Imm4\<close>. (A count of 32 or more has no defined shift in
  C++; \<open>push_bit\<close> gives 0 then.)\<close>

definition dest_mask_of :: "nat \<Rightarrow> Imm4" where
  "dest_mask_of n = ucast (push_bit n (1 :: 32 word) - 1)"

text \<open>Lines 230 to 247: the store by sideband mode.\<close>

definition smp_store ::
  "smp_fields \<Rightarrow> fetch_call \<Rightarrow> Id \<times> event list \<Rightarrow> bool \<times> event list" where
  "smp_store f a r =
    (let result = fst r; tr = snd r;
         dest_mask = dest_mask_of (s_component_count (fc_sampler a))
     in if sb_mode f = 0 \<or> sb_mode f = 1 then
          (True, tr @ [Store (fc_dest a) result dest_mask])
        else if sb_mode f = 3 then
          (True, tr @ [Store (fc_dest a) result dest_mask])
        else
          (True, tr @ [LogError ''Unsupported sb_mode: {}'' [unat (sb_mode f)]]))"

text \<open>\<^verbatim>\<open>USSETranslatorVisitor::smp\<close>, lines 104 to 248. Line 228 calls the fetch emitter
  with the sampler's id, the coordinate as F32, the destination type F32, the LOD mode
  and the two extras.\<close>

definition smp :: "ctx \<Rightarrow> smp_fields \<Rightarrow> event list \<Rightarrow> error + (bool \<times> event list)" where
  "smp c f tr =
    (case smp_operands c f tr of
       Inl e \<Rightarrow> Inl e
     | Inr (Return b, tr1) \<Rightarrow> Inr (b, tr1)
     | Inr (Fetch a, tr1) \<Rightarrow>
         (case do_fetch_texture c (s_id (fc_sampler a)) (fc_coord a, F32) F32
                 (uint (lod_mode f)) (fc_extra1 a) (fc_extra2 a) tr1 of
            Inl e \<Rightarrow> Inl e
          | Inr r \<Rightarrow> Inr (smp_store f a r)))"

section \<open>The non-dependent texture queries\<close>

text \<open>Lines 80 to 84: the element type of the store operand.\<close>

definition query_store_op :: "Operand \<Rightarrow> TextureQuery \<Rightarrow> Operand" where
  "query_store_op store_op q =
    (let store_op = store_op\<lparr>type := q_store_type q\<rparr>
     in if type store_op = UNK then store_op\<lparr>type := q_component_type q\<rparr> else store_op)"

text \<open>Lines 86 to 93: the coordinate and the projection flag.\<close>

definition query_coord :: "ctx \<Rightarrow> TextureQuery \<Rightarrow> event list \<Rightarrow> (Coord \<times> bool) \<times> event list" where
  "query_coord c q tr =
    (if q_prod_pos q \<ge> 0 then
       (let (texture_coord, tr1) = emit c (CreateLoad (fst (q_coord q))) tr;
            (sh, tr2) = emit c (CreateOp OpVectorShuffle (type_f32_v c 3)
                                  [texture_coord, texture_coord, 0, 1, nat (q_prod_pos q)]) tr1
        in (((sh, snd (q_coord q)), True), tr2))
     else ((q_coord q, False), tr))"

text \<open>The body of the loop of \<^verbatim>\<open>do_texture_queries\<close>, lines 79 to 101, for the queries
  in order; the store operand lives across the iterations. The fetch emitter is called
  with 0 for \<^verbatim>\<open>extra1\<close>, which is \<^verbatim>\<open>spv::NoResult\<close>, and \<^verbatim>\<open>extra2\<close> left to its
  default.\<close>

fun texture_queries_loop ::
  "ctx \<Rightarrow> Operand \<Rightarrow> TextureQuery list \<Rightarrow> event list \<Rightarrow> error + event list" where
  "texture_queries_loop c store_op [] tr = Inr tr"
| "texture_queries_loop c store_op (q # qs) tr =
    (let store_op = query_store_op store_op q;
         ((coord_inst, proj), tr1) = query_coord c q tr
     in case do_fetch_texture c (q_sampler q) coord_inst (type store_op)
               (if proj then 4 else 0) 0 NoResult tr1 of
          Inl e \<Rightarrow> Inl e
        | Inr (fetch_result, tr2) \<Rightarrow>
            (let store_op = store_op\<lparr>num := q_dest_offset q\<rparr>;
                 mask = dest_mask_of (q_component_count q)
             in texture_queries_loop c store_op qs
                  (tr2 @ [Store store_op fetch_result mask])))"

text \<open>\<^verbatim>\<open>do_texture_queries\<close>, lines 74 to 102.\<close>

definition do_texture_queries :: "ctx \<Rightarrow> TextureQuery list \<Rightarrow> event list \<Rightarrow> error + event list" where
  "do_texture_queries c texture_queries tr =
    texture_queries_loop c
      ((default_operand c)\<lparr>bank := PRIMATTR, swizzle := SWIZZLE_CHANNEL_4_DEFAULT\<rparr>)
      texture_queries tr"

section \<open>A concrete context\<close>

text \<open>A context in which every call returns its position in the trace as its id (so no
  call returns \<^verbatim>\<open>spv::NoResult\<close>), nothing is a pointer, and every coordinate passes
  the assertion. Three samplers are bound: a float one, an integer one, and one whose
  component type is UNK.\<close>

definition example_ctx :: ctx where
  "example_ctx =
    \<lparr>result_of = (\<lambda>tr. length tr),
     isPointer = (\<lambda>tr i. False),
     getNumComponents = (\<lambda>tr i. 2),
     contained_type_is_float = (\<lambda>tr i. True),
     makeFloatType = (\<lambda>w. 100 + w),
     makeVectorType = (\<lambda>t n. 200 + n),
     makeIntConstant = (\<lambda>i. 300 + nat i),
     makeFloatConstant = (\<lambda>r. 400),
     type_f32 = 132,
     type_f32_v = (\<lambda>n. 200 + n),
     m_second_program = False,
     samplers = [0 \<mapsto> \<lparr>s_id = 50, s_component_type = F32, s_component_count = 4\<rparr>,
                 1 \<mapsto> \<lparr>s_id = 51, s_component_type = IntKind 0, s_component_count = 3\<rparr>,
                 2 \<mapsto> \<lparr>s_id = 52, s_component_type = UNK, s_component_count = 4\<rparr>],
     cur_pc = 7,
     default_operand = \<lparr>num = 0, bank = OtherBank 0, type = F32, swizzle = []\<rparr>,
     decode_src0 = (\<lambda>opr n b e dbl w sp.
        opr\<lparr>num := unat n, bank := (if b = 0 then TEMP else PRIMATTR)\<rparr>),
     decode_src12 = (\<lambda>opr n b e dbl w sp.
        opr\<lparr>num := unat n, bank := (if b = 0 then TEMP else PRIMATTR)\<rparr>)\<rparr>"

text \<open>The same context with an operand model whose loads fail.\<close>

definition failing_load_ctx :: ctx where
  "failing_load_ctx = example_ctx\<lparr>result_of := (\<lambda>tr. NoResult)\<rparr>"

text \<open>A two-dimensional sample of sampler 0 with implicit LOD, stored as F32.\<close>

definition example_fields :: smp_fields where
  "example_fields =
    \<lparr>pred = 0, skipinv = 0, nosched = 0, syncstart = 0, minpack = 0,
     src0_ext = 0, src1_ext = 0, src2_ext = 0, fconv_type = 0, mask_count = 0,
     dim = 1, lod_mode = 0, dest_use_pa = False, sb_mode = 0, src0_type = 0,
     src0_bank = 0, drc_sel = 0, src1_bank = 0, src2_bank = 0,
     dest_n = 4, src0_n = 8, src1_n = 0, src2_n = 12\<rparr>"

text \<open>A query whose store type is UNK and whose component type is an integer kind.\<close>

definition example_query :: TextureQuery where
  "example_query =
    \<lparr>q_store_type = UNK, q_component_type = IntKind 0, q_prod_pos = -1,
     q_coord = (9, F32), q_sampler = 50, q_dest_offset = 2, q_component_count = 3\<rparr>"

text \<open>The calls of \<^verbatim>\<open>utils::convert_to_int\<close> in a trace.\<close>

fun is_convert :: "event \<Rightarrow> bool" where
  "is_convert (ConvertToInt v t n) = True"
| "is_convert e = False"

text \<open>The operands that \<open>example_ctx\<close> decodes from \<open>example_fields\<close>.\<close>

definition example_src0 :: Operand where
  "example_src0 = \<lparr>num = 8, bank = TEMP, type = F32, swizzle = [C_X, C_Y, C_Z, C_W]\<rparr>"

definition example_src1 :: Operand where
  "example_src1 = \<lparr>num = 0, bank = TEMP, type = F32, swizzle = [C_X, C_Y, C_Z, C_W]\<rparr>"

definition example_src2 :: Operand where
  "example_src2 = \<lparr>num = 12, bank = TEMP, type = F32, swizzle = []\<rparr>"

definition example_dest :: Operand where
  "example_dest = \<lparr>num = 4, bank = TEMP, type = F32, swizzle = [C_X, C_Y, C_Z, C_W]\<rparr>"

definition example_sampler :: SamplerInfo where
  "example_sampler = \<lparr>s_id = 50, s_component_type = F32, s_component_count = 4\<rparr>"

text \<open>The calls of \<^verbatim>\<open>store\<close> in a trace, in order: operand, value and mask.\<close>

fun store_of :: "event \<Rightarrow> (Operand \<times> Id \<times> Imm4) option" where
  "store_of (Store opr v m) = Some (opr, v, m)"
| "store_of e = None"

definition stores :: "event list \<Rightarrow> (Operand \<times> Id \<times> Imm4) list" where
  "stores tr = List.map_filter store_of tr"

section \<open>Shared facts\<close>

lemmas example_defs =
  example_ctx_def failing_load_ctx_def example_fields_def example_query_def
  example_src0_def example_src1_def example_src2_def example_dest_def example_sampler_def

lemma fetch_coord_F32:
  "fetch_coord c (x, F32) tr = (if isPointer c tr x then emit c (CreateLoad x) tr else (x, tr))"
  by (simp add: fetch_coord_def)

lemma convert_result_F32: "convert_result c F32 r = r"
  by (simp add: convert_result_def)

lemma image_sample_no_convert:
  "filter is_convert (snd (image_sample c tex cid lm e1 e2 tr)) = filter is_convert tr"
  by (simp add: image_sample_def emit_def)

lemma load_extras_no_convert:
  assumes "load_extras c lm d s xs = (p, tr1)"
  shows "filter is_convert tr1 = filter is_convert xs"
proof -
  have "filter is_convert (snd (load_extras c lm d s xs)) = filter is_convert xs"
    by (simp add: load_extras_def emit_def)
  then show ?thesis
    using assms by simp
qed

lemma smp_operands_no_convert:
  assumes "smp_operands c f tr = Inr (st, tr1)"
  shows "filter is_convert tr1 = filter is_convert tr"
  using assms
  by (auto simp add: smp_operands_def smp_load_coord_def smp_disasm_def emit_def Let_def
      split: option.splits if_splits prod.splits dest!: load_extras_no_convert)

lemma smp_store_no_convert:
  "filter is_convert (snd (smp_store f a r)) = filter is_convert (snd r)"
  by (simp add: smp_store_def Let_def)

lemma stores_append: "stores (xs @ ys) = stores xs @ stores ys"
  by (simp add: stores_def List.map_filter_def)

lemma stores_Nil: "stores [] = []"
  by (simp add: stores_def List.map_filter_def)

lemma stores_Cons:
  "stores (e # tr) = (case store_of e of None \<Rightarrow> stores tr | Some s \<Rightarrow> s # stores tr)"
  by (simp add: stores_def List.map_filter_def split: option.splits)

lemmas stores_simps = stores_append stores_Nil stores_Cons

lemma fetch_coord_stores: "stores (snd (fetch_coord c coord tr)) = stores tr"
  by (simp add: fetch_coord_def emit_def Let_def stores_simps split: prod.splits)

lemma image_sample_stores:
  "stores (snd (image_sample c tex cid lm e1 e2 tr)) = stores tr"
  by (simp add: image_sample_def emit_def stores_simps)

lemma convert_result_stores: "stores (snd (convert_result c t r)) = stores (snd r)"
  by (simp add: convert_result_def emit_def stores_simps)

lemma do_fetch_texture_stores:
  assumes "do_fetch_texture c tex coord t lm e1 e2 tr = Inr (r, tr')"
  shows "stores tr' = stores tr"
proof -
  obtain cid tr1 where fc: "fetch_coord c coord tr = (cid, tr1)"
    by (cases "fetch_coord c coord tr")
  have "stores tr1 = stores tr"
    using fetch_coord_stores [of c coord tr] fc by simp
  moreover have "tr' = snd (convert_result c t (image_sample c tex cid lm e1 e2 tr1))"
    using assms fc by (auto simp add: do_fetch_texture_def split: if_splits)
  ultimately show ?thesis
    by (simp add: convert_result_stores image_sample_stores)
qed

lemma query_coord_stores: "stores (snd (query_coord c q tr)) = stores tr"
  by (simp add: query_coord_def emit_def stores_simps)

lemma texture_queries_loop_stores:
  "texture_queries_loop c so qs tr = Inr tr' \<Longrightarrow>
   map (\<lambda>(opr, v, m). (type opr, num opr, m)) (stores tr') =
   map (\<lambda>(opr, v, m). (type opr, num opr, m)) (stores tr) @
   map (\<lambda>q. (if q_store_type q = UNK then q_component_type q else q_store_type q,
             q_dest_offset q, dest_mask_of (q_component_count q))) qs"
proof (induction qs arbitrary: so tr)
  case Nil
  then show ?case by simp
next
  case (Cons q qs)
  obtain ci proj tr1 where qc: "query_coord c q tr = ((ci, proj), tr1)"
    by (cases "query_coord c q tr") auto
  have s1: "stores tr1 = stores tr"
    using query_coord_stores [of c q tr] qc by simp
  from Cons.prems qc obtain fr tr2 where
    fe: "do_fetch_texture c (q_sampler q) ci (type (query_store_op so q))
           (if proj then 4 else 0) 0 NoResult tr1 = Inr (fr, tr2)"
    and rest: "texture_queries_loop c ((query_store_op so q)\<lparr>num := q_dest_offset q\<rparr>) qs
           (tr2 @ [Store ((query_store_op so q)\<lparr>num := q_dest_offset q\<rparr>) fr
                     (dest_mask_of (q_component_count q))]) = Inr tr'"
    by (auto simp add: Let_def split: sum.splits)
  have s2: "stores tr2 = stores tr"
    using do_fetch_texture_stores [OF fe] s1 by simp
  show ?case
    using Cons.IH [OF rest] s2 by (simp add: stores_simps query_store_op_def)
qed

lemma texture_queries_loop_total:
  "(\<forall>t i. contained_type_is_float c t i) \<Longrightarrow>
   \<exists>tr'. texture_queries_loop c so qs tr = Inr tr'"
proof (induction qs arbitrary: so tr)
  case Nil
  then show ?case by simp
next
  case (Cons q qs)
  then show ?case
    by (auto simp add: Let_def do_fetch_texture_def split: sum.splits prod.splits)
qed

lemma smp_operands_fetch:
  assumes "smp_operands c f tr = Inr (Fetch a, tr1)"
  shows "samplers c (num (smp_src1 c f)) = Some (fc_sampler a) \<and>
         (\<forall>t. tb_dest_fmt_at (fconv_type f) = Some t \<longrightarrow>
              fc_dest a = smp_dest c f (fc_sampler a) t)"
  using assms
  by (auto simp add: smp_operands_def Let_def split: option.splits if_splits prod.splits)

section \<open>The opcode chosen by the fetch emitter\<close>

text \<open>
  Claim C2. A call of \<^verbatim>\<open>do_fetch_texture\<close> whose coordinate passes the assertion of
  line 51 loads the texture and creates exactly one sampling instruction, of result type
  \<^verbatim>\<open>type_f32_v[4]\<close>: with no LOD operand (\<^verbatim>\<open>extra1\<close> is \<^verbatim>\<open>spv::NoResult\<close>) and mode 4
  the projective implicit-LOD sample of the texture and the coordinate; with no LOD
  operand and any other mode the plain implicit-LOD sample; with an LOD operand and mode 2
  the explicit-LOD sample with the LOD mask and \<^verbatim>\<open>extra1\<close>; with an LOD operand and mode
  3 the explicit-LOD sample with the gradient mask and the two operands \<^verbatim>\<open>extra1\<close>,
  \<^verbatim>\<open>extra2\<close>. The sample then goes through the conversion of lines 68 and 69.
\<close>

theorem do_fetch_texture_opcode:
  assumes "fetch_coord c coord tr = (cid, tr1)"
    and "contained_type_is_float c tr1 cid"
    and "lm \<noteq> 4"
    and "extra1 \<noteq> NoResult"
    and "t = result_of c (tr1 @ [CreateLoad tex])"
  shows "do_fetch_texture c tex coord dest_type 4 NoResult extra2 tr =
           Inr (convert_result c dest_type
                  (emit c (CreateOp OpImageSampleProjImplicitLod (type_f32_v c 4) [t, cid])
                     (tr1 @ [CreateLoad tex]))) \<and>
         do_fetch_texture c tex coord dest_type lm NoResult extra2 tr =
           Inr (convert_result c dest_type
                  (emit c (CreateOp OpImageSampleImplicitLod (type_f32_v c 4) [t, cid])
                     (tr1 @ [CreateLoad tex]))) \<and>
         do_fetch_texture c tex coord dest_type 2 extra1 extra2 tr =
           Inr (convert_result c dest_type
                  (emit c (CreateOp OpImageSampleExplicitLod (type_f32_v c 4)
                             [t, cid, ImageOperandsLodMask, extra1])
                     (tr1 @ [CreateLoad tex]))) \<and>
         do_fetch_texture c tex coord dest_type 3 extra1 extra2 tr =
           Inr (convert_result c dest_type
                  (emit c (CreateOp OpImageSampleExplicitLod (type_f32_v c 4)
                             [t, cid, ImageOperandsGradMask, extra1, extra2])
                     (tr1 @ [CreateLoad tex])))"
  using assms by (simp add: do_fetch_texture_def image_sample_def emit_def)

theorem do_fetch_texture_opcode_witness:
  "do_fetch_texture example_ctx 50 (9, F32) (IntKind 0) 4 NoResult 6 [] =
     Inr (3, [CreateLoad 50, CreateOp OpImageSampleProjImplicitLod 204 [1, 9],
              ConvertToInt 2 (IntKind 0) True]) \<and>
   do_fetch_texture example_ctx 50 (9, F32) (IntKind 0) 0 NoResult 6 [] =
     Inr (3, [CreateLoad 50, CreateOp OpImageSampleImplicitLod 204 [1, 9],
              ConvertToInt 2 (IntKind 0) True]) \<and>
   do_fetch_texture example_ctx 50 (9, F32) (IntKind 0) 2 5 6 [] =
     Inr (3, [CreateLoad 50, CreateOp OpImageSampleExplicitLod 204 [1, 9, 2, 5],
              ConvertToInt 2 (IntKind 0) True]) \<and>
   do_fetch_texture example_ctx 50 (9, F32) (IntKind 0) 3 5 6 [] =
     Inr (3, [CreateLoad 50, CreateOp OpImageSampleExplicitLod 204 [1, 9, 4, 5, 6],
              ConvertToInt 2 (IntKind 0) True])"
proof -
  have h1: "fetch_coord example_ctx (9, F32) [] = (9, [])"
    by (simp add: fetch_coord_F32 example_ctx_def)
  have h2: "contained_type_is_float example_ctx [] 9"
    by (simp add: example_ctx_def)
  have h3: "(0 :: int) \<noteq> 4"
    by simp
  have h4: "(5 :: Id) \<noteq> NoResult"
    by (simp add: NoResult_def)
  show ?thesis
    using do_fetch_texture_opcode [OF h1 h2 h3 h4 refl, of 50 "IntKind 0" 6]
    by (simp add: convert_result_def emit_def example_ctx_def ImageOperandsLodMask_def
        ImageOperandsGradMask_def)
qed

section \<open>Early returns of the SMP handler\<close>

text \<open>
  Claim C3. An SMP instruction whose LOD mode is 1 (BIAS, not implemented) is reported
  with \<^verbatim>\<open>LOG_ERROR\<close> and translated to nothing: the only call made is the error log, so
  no instruction is created and nothing is loaded or stored, and the handler returns
  \<^verbatim>\<open>true\<close>.
\<close>

theorem smp_bias_lod_is_noop:
  "lod_mode f = 1 \<Longrightarrow>
   smp c f tr = Inr (True, tr @ [LogError ''Sampler LOD replace not implemented!'' []])"
  by (simp add: smp_def smp_operands_def)

theorem smp_bias_lod_is_noop_witness:
  "smp example_ctx (example_fields\<lparr>lod_mode := 1\<rparr>) [] =
     Inr (True, [LogError ''Sampler LOD replace not implemented!'' []])"
proof -
  have h: "lod_mode (example_fields\<lparr>lod_mode := 1\<rparr>) = 1"
    by simp
  show ?thesis
    using smp_bias_lod_is_noop [OF h, of example_ctx "[]"] by simp
qed

text \<open>
  Claim C4. An SMP instruction that has passed the LOD validation, so that its source 1
  is decoded and looked up, and whose sampler index (the register number of source 1) is
  not in the sampler table: the handler logs that the sampler does not exist, makes no
  other call (no instruction is created, the destination is not stored to), and returns
  \<^verbatim>\<open>true\<close>.
\<close>

theorem smp_unbound_sampler:
  assumes "lod_mode f = 0 \<or> lod_mode f = 2 \<or> lod_mode f = 3"
    and "samplers c (num (smp_src1 c f)) = None"
  shows "smp c f tr =
    Inr (True, tr @ [LogError ''Can't get the sampler (sampler doesn't exist!)'' []])"
  using assms by (auto simp add: smp_def smp_operands_def)

theorem smp_unbound_sampler_witness:
  "smp example_ctx (example_fields\<lparr>src1_n := 9\<rparr>) [] =
     Inr (True, [LogError ''Can't get the sampler (sampler doesn't exist!)'' []])"
proof -
  have h1: "lod_mode (example_fields\<lparr>src1_n := 9\<rparr>) = 0
      \<or> lod_mode (example_fields\<lparr>src1_n := 9\<rparr>) = 2
      \<or> lod_mode (example_fields\<lparr>src1_n := 9\<rparr>) = 3"
    by (simp add: example_fields_def)
  have h2: "samplers example_ctx (num (smp_src1 example_ctx (example_fields\<lparr>src1_n := 9\<rparr>)))
      = None"
    by (simp add: example_ctx_def example_fields_def smp_src1_def)
  show ?thesis
    using smp_unbound_sampler [OF h1 h2, of "[]"] by simp
qed


text \<open>
  Claim C9. An SMP instruction whose coordinate load returns \<^verbatim>\<open>spv::NoResult\<close>: after
  the disassembly line, \<^verbatim>\<open>setLine\<close> and that load, the handler only logs
  "Coord not loaded" and returns (the value \<^verbatim>\<open>false\<close>). No sampling instruction is
  created and the destination is not stored to; the handler returns normally to its
  caller.
\<close>

theorem smp_coord_not_loaded:
  assumes "lod_mode f = 0 \<or> lod_mode f = 2 \<or> lod_mode f = 3"
    and "samplers c (num (smp_src1 c f)) = Some sampler"
    and "tb_dest_fmt_at (fconv_type f) = Some t"
    and "ld = tr @ [smp_disasm c f (smp_dest c f sampler t), SetLine (cur_pc c),
                    Load (smp_src0 c f) (coord_mask_of (dim f + 1)) 0]"
    and "result_of c ld = NoResult"
  shows "smp c f tr = Inr (False, ld @ [LogError ''Coord not loaded'' []])"
  using assms by (auto simp add: smp_def smp_operands_def smp_load_coord_def emit_def)

theorem smp_coord_not_loaded_witness:
  "smp failing_load_ctx example_fields [] =
     Inr (False, [LogDisasm 2 example_dest example_src0 3 example_src1 None, SetLine 7,
                  Load example_src0 3 0, LogError ''Coord not loaded'' []])"
proof -
  have h1: "lod_mode example_fields = 0 \<or> lod_mode example_fields = 2
      \<or> lod_mode example_fields = 3"
    by (simp add: example_fields_def)
  have h2: "samplers failing_load_ctx (num (smp_src1 failing_load_ctx example_fields)) =
      Some example_sampler"
    by (simp add: example_defs smp_src1_def)
  have h3: "tb_dest_fmt_at (fconv_type example_fields) = Some F32"
    by (simp add: example_fields_def tb_dest_fmt_at_def tb_dest_fmt_def)
  have h5: "result_of failing_load_ctx
      ([] @ [smp_disasm failing_load_ctx example_fields
               (smp_dest failing_load_ctx example_fields example_sampler F32),
             SetLine (cur_pc failing_load_ctx),
             Load (smp_src0 failing_load_ctx example_fields)
               (coord_mask_of (dim example_fields + 1)) 0]) = NoResult"
    by (simp add: failing_load_ctx_def)
  show ?thesis
    using smp_coord_not_loaded [OF h1 h2 h3 refl h5]
    by (simp add: example_defs smp_disasm_def smp_dest_def smp_src0_def smp_src1_def
        coord_mask_of_def SWIZZLE_CHANNEL_4_DEFAULT_def)
qed

section \<open>Coordinates and extra operands of the SMP handler\<close>

text \<open>
  Claim C5. A one-dimensional SMP sample (\<^verbatim>\<open>dim\<close> encoded 0) that reaches the fetch:
  the coordinate is loaded from source 0 with mask 0b0001, and the coordinate handed to
  the fetch emitter is the result of one \<^verbatim>\<open>createCompositeConstruct\<close> of type
  \<^verbatim>\<open>makeVectorType(makeFloatType(32), 2)\<close> whose two constituents are the loaded
  coordinate and the float constant 0.0; it is passed as an F32 coordinate.
\<close>

theorem smp_1d_coordinate:
  assumes "lod_mode f = 0 \<or> lod_mode f = 2 \<or> lod_mode f = 3"
    and "samplers c (num (smp_src1 c f)) = Some sampler"
    and "tb_dest_fmt_at (fconv_type f) = Some t"
    and "dim f = 0"
    and "smp_load_coord c f (smp_dest c f sampler t) tr = (coord, tr2)"
    and "coord \<noteq> NoResult"
    and "tr3 = tr2 @ [CreateCompositeConstruct (makeVectorType c (makeFloatType c 32) 2)
                        [coord, makeFloatConstant c 0]]"
    and "ex = (if lod_mode f = 0 then ((NoResult, NoResult), tr3)
               else load_extras c (lod_mode f) 2 (smp_src2 c f) tr3)"
    and "a = \<lparr>fc_sampler = sampler, fc_dest = smp_dest c f sampler t,
              fc_coord = result_of c tr3, fc_extra1 = fst (fst ex), fc_extra2 = snd (fst ex)\<rparr>"
  shows "tr2 = tr @ [smp_disasm c f (smp_dest c f sampler t), SetLine (cur_pc c),
                     Load (smp_src0 c f) 1 0] \<and>
         smp_operands c f tr = Inr (Fetch a, snd ex) \<and>
         smp c f tr =
           (case do_fetch_texture c (s_id sampler) (result_of c tr3, F32) F32
                   (uint (lod_mode f)) (fst (fst ex)) (snd (fst ex)) (snd ex) of
              Inl e \<Rightarrow> Inl e
            | Inr r \<Rightarrow> Inr (smp_store f a r))"
proof -
  have ld: "tr2 = tr @ [smp_disasm c f (smp_dest c f sampler t), SetLine (cur_pc c),
                        Load (smp_src0 c f) 1 0]"
    using assms(4,5) by (auto simp add: smp_load_coord_def emit_def coord_mask_of_def)
  have ops: "smp_operands c f tr = Inr (Fetch a, snd ex)"
    using assms by (auto simp add: smp_operands_def emit_def split: prod.splits)
  show ?thesis
    using ld ops unfolding assms(9) by (simp add: smp_def)
qed

theorem smp_1d_coordinate_witness:
  "smp_operands example_ctx (example_fields\<lparr>dim := 0, lod_mode := 2\<rparr>) [] =
     Inr (Fetch \<lparr>fc_sampler = example_sampler, fc_dest = example_dest, fc_coord = 4,
                 fc_extra1 = 5, fc_extra2 = NoResult\<rparr>,
          [LogDisasm 1 example_dest example_src0 1 example_src1
             (Some (default_operand example_ctx)),
           SetLine 7, Load example_src0 1 0, CreateCompositeConstruct 202 [3, 400],
           Load example_src2 1 0])"
proof -
  let ?f = "example_fields\<lparr>dim := 0, lod_mode := 2\<rparr>"
  have h1: "lod_mode ?f = 0 \<or> lod_mode ?f = 2 \<or> lod_mode ?f = 3"
    by simp
  have h2: "samplers example_ctx (num (smp_src1 example_ctx ?f)) = Some example_sampler"
    by (simp add: example_defs smp_src1_def)
  have h3: "tb_dest_fmt_at (fconv_type ?f) = Some F32"
    by (simp add: example_fields_def tb_dest_fmt_at_def tb_dest_fmt_def)
  have h4: "dim ?f = 0"
    by simp
  have h5: "smp_load_coord example_ctx ?f (smp_dest example_ctx ?f example_sampler F32) [] =
      (3, [LogDisasm 1 example_dest example_src0 1 example_src1
             (Some (default_operand example_ctx)),
           SetLine 7, Load example_src0 1 0])"
    by (simp add: example_defs smp_load_coord_def smp_disasm_def smp_dest_def smp_src0_def
        smp_src1_def coord_mask_of_def emit_def SWIZZLE_CHANNEL_4_DEFAULT_def)
  have h6: "(3 :: Id) \<noteq> NoResult"
    by (simp add: NoResult_def)
  show ?thesis
    using smp_1d_coordinate [OF h1 h2 h3 h4 h5 h6 refl refl refl]
    by (simp add: example_defs load_extras_def emit_def smp_dest_def smp_src0_def
        smp_src2_def SWIZZLE_CHANNEL_4_DEFAULT_def)
qed


text \<open>
  Claim C6. An SMP instruction in gradient mode (\<^verbatim>\<open>lod_mode\<close> 3) with a bound sampler,
  each dimension on its own. Dimension 2 (encoded 1), once its coordinate is loaded: the
  two extras are loaded from source 2 with masks 0b0011 and 0b1100, both at offset 0.
  Dimension 3 (encoded 2), once its coordinate is loaded: both extras are loaded from the
  same source 2 with mask 0b0111, the first at offset 0 and the second at offset 1.
  Nothing else is called between the coordinate load and the fetch, and \<^verbatim>\<open>smp\<close> calls
  the fetch emitter with these two results as \<^verbatim>\<open>extra1\<close> and \<^verbatim>\<open>extra2\<close>.
\<close>

theorem smp_gradient_loads:
  assumes "lod_mode f = 3"
    and "samplers c (num (smp_src1 c f)) = Some sampler"
    and "tb_dest_fmt_at (fconv_type f) = Some t"
    and "dest = smp_dest c f sampler t"
    and "src2 = smp_src2 c f"
  shows "(smp_load_coord c (f\<lparr>dim := 1\<rparr>) dest tr = (coord2, tr2) \<and> coord2 \<noteq> NoResult \<and>
          a2 = \<lparr>fc_sampler = sampler, fc_dest = dest, fc_coord = coord2,
                fc_extra1 = result_of c (tr2 @ [Load src2 3 0]),
                fc_extra2 = result_of c (tr2 @ [Load src2 3 0, Load src2 12 0])\<rparr> \<longrightarrow>
          smp_operands c (f\<lparr>dim := 1\<rparr>) tr =
            Inr (Fetch a2, tr2 @ [Load src2 3 0, Load src2 12 0]) \<and>
          smp c (f\<lparr>dim := 1\<rparr>) tr =
            (case do_fetch_texture c (s_id sampler) (coord2, F32) F32 3
                    (result_of c (tr2 @ [Load src2 3 0]))
                    (result_of c (tr2 @ [Load src2 3 0, Load src2 12 0]))
                    (tr2 @ [Load src2 3 0, Load src2 12 0]) of
               Inl e \<Rightarrow> Inl e
             | Inr r \<Rightarrow> Inr (smp_store (f\<lparr>dim := 1\<rparr>) a2 r))) \<and>
         (smp_load_coord c (f\<lparr>dim := 2\<rparr>) dest tr = (coord3, tr3) \<and> coord3 \<noteq> NoResult \<and>
          a3 = \<lparr>fc_sampler = sampler, fc_dest = dest, fc_coord = coord3,
                fc_extra1 = result_of c (tr3 @ [Load src2 7 0]),
                fc_extra2 = result_of c (tr3 @ [Load src2 7 0, Load src2 7 1])\<rparr> \<longrightarrow>
          smp_operands c (f\<lparr>dim := 2\<rparr>) tr =
            Inr (Fetch a3, tr3 @ [Load src2 7 0, Load src2 7 1]) \<and>
          smp c (f\<lparr>dim := 2\<rparr>) tr =
            (case do_fetch_texture c (s_id sampler) (coord3, F32) F32 3
                    (result_of c (tr3 @ [Load src2 7 0]))
                    (result_of c (tr3 @ [Load src2 7 0, Load src2 7 1]))
                    (tr3 @ [Load src2 7 0, Load src2 7 1]) of
               Inl e \<Rightarrow> Inl e
             | Inr r \<Rightarrow> Inr (smp_store (f\<lparr>dim := 2\<rparr>) a3 r)))"
proof -
  have s1: "smp_src1 c (f\<lparr>dim := k\<rparr>) = smp_src1 c f" for k
    by (simp add: smp_src1_def)
  have s2: "smp_src2 c (f\<lparr>dim := k\<rparr>) = smp_src2 c f" for k
    by (simp add: smp_src2_def smp_src0_def)
  have d: "smp_dest c (f\<lparr>dim := k\<rparr>) sampler t = smp_dest c f sampler t" for k
    by (simp add: smp_dest_def)
  have two: "smp_operands c (f\<lparr>dim := 1\<rparr>) tr =
               Inr (Fetch a2, tr2 @ [Load src2 3 0, Load src2 12 0])"
    if "smp_load_coord c (f\<lparr>dim := 1\<rparr>) dest tr = (coord2, tr2)" "coord2 \<noteq> NoResult"
       "a2 = \<lparr>fc_sampler = sampler, fc_dest = dest, fc_coord = coord2,
              fc_extra1 = result_of c (tr2 @ [Load src2 3 0]),
              fc_extra2 = result_of c (tr2 @ [Load src2 3 0, Load src2 12 0])\<rparr>"
    using assms that by (simp add: smp_operands_def s1 s2 d load_extras_def emit_def)
  have three: "smp_operands c (f\<lparr>dim := 2\<rparr>) tr =
                 Inr (Fetch a3, tr3 @ [Load src2 7 0, Load src2 7 1])"
    if "smp_load_coord c (f\<lparr>dim := 2\<rparr>) dest tr = (coord3, tr3)" "coord3 \<noteq> NoResult"
       "a3 = \<lparr>fc_sampler = sampler, fc_dest = dest, fc_coord = coord3,
              fc_extra1 = result_of c (tr3 @ [Load src2 7 0]),
              fc_extra2 = result_of c (tr3 @ [Load src2 7 0, Load src2 7 1])\<rparr>"
    using assms that by (simp add: smp_operands_def s1 s2 d load_extras_def emit_def)
  show ?thesis
    using two three assms(1) by (auto simp add: smp_def)
qed

theorem smp_gradient_loads_witness:
  "smp example_ctx (example_fields\<lparr>lod_mode := 3, dim := 1\<rparr>) [] =
     Inr (True,
          [LogDisasm 2 example_dest example_src0 3 example_src1
             (Some (default_operand example_ctx)),
           SetLine 7, Load example_src0 3 0,
           Load example_src2 3 0, Load example_src2 12 0,
           CreateLoad 50, CreateOp OpImageSampleExplicitLod 204 [6, 3, 4, 4, 5],
           Store example_dest 7 15]) \<and>
   smp example_ctx (example_fields\<lparr>lod_mode := 3, dim := 2\<rparr>) [] =
     Inr (True,
          [LogDisasm 3 example_dest example_src0 7 example_src1
             (Some (default_operand example_ctx)),
           SetLine 7, Load example_src0 7 0,
           Load example_src2 7 0, Load example_src2 7 1,
           CreateLoad 50, CreateOp OpImageSampleExplicitLod 204 [6, 3, 4, 4, 5],
           Store example_dest 7 15])"
proof -
  let ?f = "example_fields\<lparr>lod_mode := 3\<rparr>"
  let ?ld2 = "[LogDisasm 2 example_dest example_src0 3 example_src1
                 (Some (default_operand example_ctx)),
               SetLine 7, Load example_src0 3 0]"
  let ?ld3 = "[LogDisasm 3 example_dest example_src0 7 example_src1
                 (Some (default_operand example_ctx)),
               SetLine 7, Load example_src0 7 0]"
  let ?a = "\<lparr>fc_sampler = example_sampler, fc_dest = example_dest, fc_coord = 3,
             fc_extra1 = 4, fc_extra2 = 5\<rparr>"
  have h1: "lod_mode ?f = 3"
    by simp
  have h2: "samplers example_ctx (num (smp_src1 example_ctx ?f)) = Some example_sampler"
    by (simp add: example_defs smp_src1_def)
  have h3: "tb_dest_fmt_at (fconv_type ?f) = Some F32"
    by (simp add: example_fields_def tb_dest_fmt_at_def tb_dest_fmt_def)
  have h4: "example_dest = smp_dest example_ctx ?f example_sampler F32"
    by (simp add: example_defs smp_dest_def SWIZZLE_CHANNEL_4_DEFAULT_def)
  have h5: "example_src2 = smp_src2 example_ctx ?f"
    by (simp add: example_defs smp_src2_def smp_src0_def)
  have p2: "smp_load_coord example_ctx (?f\<lparr>dim := 1\<rparr>) example_dest [] = (3, ?ld2) \<and>
      (3 :: Id) \<noteq> NoResult \<and>
      ?a = \<lparr>fc_sampler = example_sampler, fc_dest = example_dest, fc_coord = 3,
             fc_extra1 = result_of example_ctx (?ld2 @ [Load example_src2 3 0]),
             fc_extra2 = result_of example_ctx
                (?ld2 @ [Load example_src2 3 0, Load example_src2 12 0])\<rparr>"
    by (simp add: example_defs smp_load_coord_def smp_disasm_def smp_src0_def
        smp_src1_def coord_mask_of_def emit_def NoResult_def SWIZZLE_CHANNEL_4_DEFAULT_def)
  have p3: "smp_load_coord example_ctx (?f\<lparr>dim := 2\<rparr>) example_dest [] = (3, ?ld3) \<and>
      (3 :: Id) \<noteq> NoResult \<and>
      ?a = \<lparr>fc_sampler = example_sampler, fc_dest = example_dest, fc_coord = 3,
             fc_extra1 = result_of example_ctx (?ld3 @ [Load example_src2 7 0]),
             fc_extra2 = result_of example_ctx
                (?ld3 @ [Load example_src2 7 0, Load example_src2 7 1])\<rparr>"
    by (simp add: example_defs smp_load_coord_def smp_disasm_def smp_src0_def
        smp_src1_def coord_mask_of_def emit_def NoResult_def SWIZZLE_CHANNEL_4_DEFAULT_def)
  note T = smp_gradient_loads [OF h1 h2 h3 h4 h5, of "[]" 3 ?ld2 ?a 3 ?ld3 ?a]
  have r2: "smp example_ctx (?f\<lparr>dim := 1\<rparr>) [] =
      (case do_fetch_texture example_ctx (s_id example_sampler) (3, F32) F32 3
              (result_of example_ctx (?ld2 @ [Load example_src2 3 0]))
              (result_of example_ctx (?ld2 @ [Load example_src2 3 0, Load example_src2 12 0]))
              (?ld2 @ [Load example_src2 3 0, Load example_src2 12 0]) of
         Inl e \<Rightarrow> Inl e
       | Inr r \<Rightarrow> Inr (smp_store (?f\<lparr>dim := 1\<rparr>) ?a r))"
    using T [THEN conjunct1, THEN mp, OF p2] by (rule conjunct2)
  have r3: "smp example_ctx (?f\<lparr>dim := 2\<rparr>) [] =
      (case do_fetch_texture example_ctx (s_id example_sampler) (3, F32) F32 3
              (result_of example_ctx (?ld3 @ [Load example_src2 7 0]))
              (result_of example_ctx (?ld3 @ [Load example_src2 7 0, Load example_src2 7 1]))
              (?ld3 @ [Load example_src2 7 0, Load example_src2 7 1]) of
         Inl e \<Rightarrow> Inl e
       | Inr r \<Rightarrow> Inr (smp_store (?f\<lparr>dim := 2\<rparr>) ?a r))"
    using T [THEN conjunct2, THEN mp, OF p3] by (rule conjunct2)
  show ?thesis
    using r2 r3
    by (simp add: example_defs do_fetch_texture_def fetch_coord_F32 image_sample_def
        convert_result_F32 emit_def smp_store_def dest_mask_of_def NoResult_def
        ImageOperandsGradMask_def)
qed

text \<open>
  Claim C10. An SMP instruction whose \<^verbatim>\<open>dim\<close> field is encoded 3 (dimension 4 after
  \<^verbatim>\<open>dim += 1\<close>) is not rejected, in any of the LOD modes 0, 2 and 3: its coordinate is
  loaded with the default mask 0b0011, it is handed to the fetch emitter as loaded, without
  a composite construct, and the handler goes on to the fetch and the store. In gradient
  mode (\<^verbatim>\<open>lod_mode\<close> 3) no extra is loaded, both stay \<^verbatim>\<open>spv::NoResult\<close>, and the fetch
  emitter, called with mode 3 and no LOD operand, creates the plain implicit-LOD sample,
  which is then stored by the rule of the sideband mode.
\<close>

theorem smp_dim4_gradient:
  assumes "lod_mode f = 0 \<or> lod_mode f = 2 \<or> lod_mode f = 3"
    and "dim f = 3"
    and "samplers c (num (smp_src1 c f)) = Some sampler"
    and "tb_dest_fmt_at (fconv_type f) = Some t"
    and "smp_load_coord c f (smp_dest c f sampler t) tr = (coord, tr2)"
    and "coord \<noteq> NoResult"
    and "ex = (if lod_mode f = 0 then ((NoResult, NoResult), tr2)
               else load_extras c (lod_mode f) 4 (smp_src2 c f) tr2)"
    and "a = \<lparr>fc_sampler = sampler, fc_dest = smp_dest c f sampler t, fc_coord = coord,
              fc_extra1 = fst (fst ex), fc_extra2 = snd (fst ex)\<rparr>"
  shows "tr2 = tr @ [smp_disasm c f (smp_dest c f sampler t), SetLine (cur_pc c),
                     Load (smp_src0 c f) 3 0] \<and>
         smp_operands c f tr = Inr (Fetch a, snd ex) \<and>
         smp c f tr =
           (case do_fetch_texture c (s_id sampler) (coord, F32) F32 (uint (lod_mode f))
                   (fst (fst ex)) (snd (fst ex)) (snd ex) of
              Inl e \<Rightarrow> Inl e
            | Inr r \<Rightarrow> Inr (smp_store f a r)) \<and>
         (fetch_coord c (coord, F32) (snd ex) = (cid, tr3) \<and>
          contained_type_is_float c tr3 cid \<longrightarrow>
          smp c f tr =
            Inr (smp_store f a
                   (image_sample c (s_id sampler) cid (uint (lod_mode f))
                      (fst (fst ex)) (snd (fst ex)) tr3))) \<and>
         (lod_mode f = 3 \<longrightarrow> ex = ((NoResult, NoResult), tr2)) \<and>
         (lod_mode f = 3 \<and> fetch_coord c (coord, F32) tr2 = (cid, tr3) \<and>
          contained_type_is_float c tr3 cid \<and>
          tr4 = tr3 @ [CreateLoad (s_id sampler),
                       CreateOp OpImageSampleImplicitLod (type_f32_v c 4)
                         [result_of c (tr3 @ [CreateLoad (s_id sampler)]), cid]] \<longrightarrow>
          smp c f tr = Inr (smp_store f a (result_of c tr4, tr4)))"
proof -
  have ld: "tr2 = tr @ [smp_disasm c f (smp_dest c f sampler t), SetLine (cur_pc c),
                        Load (smp_src0 c f) 3 0]"
    using assms(2,5) by (auto simp add: smp_load_coord_def emit_def coord_mask_of_def)
  have ops: "smp_operands c f tr = Inr (Fetch a, snd ex)"
    using assms by (auto simp add: smp_operands_def split: prod.splits)
  have run: "smp c f tr =
      (case do_fetch_texture c (s_id sampler) (coord, F32) F32 (uint (lod_mode f))
              (fst (fst ex)) (snd (fst ex)) (snd ex) of
         Inl e \<Rightarrow> Inl e
       | Inr r \<Rightarrow> Inr (smp_store f a r))"
    using ops unfolding assms(8) by (simp add: smp_def)
  have ok: "smp c f tr =
      Inr (smp_store f a
             (image_sample c (s_id sampler) cid (uint (lod_mode f))
                (fst (fst ex)) (snd (fst ex)) tr3))"
    if "fetch_coord c (coord, F32) (snd ex) = (cid, tr3)" "contained_type_is_float c tr3 cid"
    using that by (simp add: run do_fetch_texture_def convert_result_F32)
  have g: "ex = ((NoResult, NoResult), tr2)" if "lod_mode f = 3"
    using that assms(2,7) by (simp add: load_extras_def)
  have gr: "smp c f tr = Inr (smp_store f a (result_of c tr4, tr4))"
    if "lod_mode f = 3" "fetch_coord c (coord, F32) tr2 = (cid, tr3)"
       "contained_type_is_float c tr3 cid"
       "tr4 = tr3 @ [CreateLoad (s_id sampler),
                     CreateOp OpImageSampleImplicitLod (type_f32_v c 4)
                       [result_of c (tr3 @ [CreateLoad (s_id sampler)]), cid]]"
    using that g [OF that(1)]
    by (simp add: run do_fetch_texture_def convert_result_F32 image_sample_def emit_def)
  show ?thesis
    using ld ops run ok g gr by blast
qed

theorem smp_dim4_gradient_witness:
  "smp example_ctx (example_fields\<lparr>lod_mode := 3, dim := 3\<rparr>) [] =
     Inr (True,
          [LogDisasm 4 example_dest example_src0 3 example_src1
             (Some (default_operand example_ctx)),
           SetLine 7, Load example_src0 3 0,
           CreateLoad 50, CreateOp OpImageSampleImplicitLod 204 [4, 3],
           Store example_dest 5 15]) \<and>
   smp example_ctx (example_fields\<lparr>lod_mode := 2, dim := 3\<rparr>) [] =
     Inr (True,
          [LogDisasm 4 example_dest example_src0 3 example_src1
             (Some (default_operand example_ctx)),
           SetLine 7, Load example_src0 3 0, Load example_src2 1 0,
           CreateLoad 50, CreateOp OpImageSampleExplicitLod 204 [5, 3, 2, 4],
           Store example_dest 6 15])"
proof -
  let ?f = "example_fields\<lparr>lod_mode := 3, dim := 3\<rparr>"
  let ?g = "example_fields\<lparr>lod_mode := 2, dim := 3\<rparr>"
  let ?ld = "[LogDisasm 4 example_dest example_src0 3 example_src1
                (Some (default_operand example_ctx)),
              SetLine 7, Load example_src0 3 0]"
  let ?tr4 = "?ld @ [CreateLoad (s_id example_sampler),
                CreateOp OpImageSampleImplicitLod (type_f32_v example_ctx 4)
                  [result_of example_ctx (?ld @ [CreateLoad (s_id example_sampler)]), 3]]"
  have f1: "lod_mode ?f = 0 \<or> lod_mode ?f = 2 \<or> lod_mode ?f = 3"
    by simp
  have f2: "dim ?f = 3"
    by simp
  have f3: "samplers example_ctx (num (smp_src1 example_ctx ?f)) = Some example_sampler"
    by (simp add: example_defs smp_src1_def)
  have f4: "tb_dest_fmt_at (fconv_type ?f) = Some F32"
    by (simp add: example_fields_def tb_dest_fmt_at_def tb_dest_fmt_def)
  have f5: "smp_load_coord example_ctx ?f (smp_dest example_ctx ?f example_sampler F32) [] =
      (3, ?ld)"
    by (simp add: example_defs smp_load_coord_def smp_disasm_def smp_dest_def smp_src0_def
        smp_src1_def coord_mask_of_def emit_def SWIZZLE_CHANNEL_4_DEFAULT_def)
  have f6: "(3 :: Id) \<noteq> NoResult"
    by (simp add: NoResult_def)
  have f7: "lod_mode ?f = 3 \<and> fetch_coord example_ctx (3, F32) ?ld = (3, ?ld) \<and>
      contained_type_is_float example_ctx ?ld 3 \<and> ?tr4 = ?tr4"
    by (simp add: fetch_coord_F32 example_ctx_def)
  note F = smp_dim4_gradient [OF f1 f2 f3 f4 f5 f6 refl refl, of 3 ?ld ?tr4]
  have rf: "smp example_ctx ?f [] =
      Inr (smp_store ?f
             \<lparr>fc_sampler = example_sampler,
                fc_dest = smp_dest example_ctx ?f example_sampler F32, fc_coord = 3,
                fc_extra1 = fst (fst (if lod_mode ?f = 0 then ((NoResult, NoResult), ?ld)
                     else load_extras example_ctx (lod_mode ?f) 4
                            (smp_src2 example_ctx ?f) ?ld)),
                fc_extra2 = snd (fst (if lod_mode ?f = 0 then ((NoResult, NoResult), ?ld)
                     else load_extras example_ctx (lod_mode ?f) 4
                            (smp_src2 example_ctx ?f) ?ld))\<rparr>
             (result_of example_ctx ?tr4, ?tr4))"
    using F f7 by blast
  have g1: "lod_mode ?g = 0 \<or> lod_mode ?g = 2 \<or> lod_mode ?g = 3"
    by simp
  have g2: "dim ?g = 3"
    by simp
  have g3: "samplers example_ctx (num (smp_src1 example_ctx ?g)) = Some example_sampler"
    by (simp add: example_defs smp_src1_def)
  have g4: "tb_dest_fmt_at (fconv_type ?g) = Some F32"
    by (simp add: example_fields_def tb_dest_fmt_at_def tb_dest_fmt_def)
  have g5: "smp_load_coord example_ctx ?g (smp_dest example_ctx ?g example_sampler F32) [] =
      (3, ?ld)"
    by (simp add: example_defs smp_load_coord_def smp_disasm_def smp_dest_def smp_src0_def
        smp_src1_def coord_mask_of_def emit_def SWIZZLE_CHANNEL_4_DEFAULT_def)
  note G = smp_dim4_gradient [OF g1 g2 g3 g4 g5 f6 refl refl]
  have rg: "smp example_ctx ?g [] =
      (case do_fetch_texture example_ctx (s_id example_sampler) (3, F32) F32
              (uint (lod_mode ?g))
              (fst (fst (if lod_mode ?g = 0 then ((NoResult, NoResult), ?ld)
                     else load_extras example_ctx (lod_mode ?g) 4
                            (smp_src2 example_ctx ?g) ?ld)))
              (snd (fst (if lod_mode ?g = 0 then ((NoResult, NoResult), ?ld)
                     else load_extras example_ctx (lod_mode ?g) 4
                            (smp_src2 example_ctx ?g) ?ld)))
              (snd (if lod_mode ?g = 0 then ((NoResult, NoResult), ?ld)
                     else load_extras example_ctx (lod_mode ?g) 4
                            (smp_src2 example_ctx ?g) ?ld)) of
         Inl e \<Rightarrow> Inl e
       | Inr r \<Rightarrow> Inr (smp_store ?g
             \<lparr>fc_sampler = example_sampler,
                fc_dest = smp_dest example_ctx ?g example_sampler F32, fc_coord = 3,
                fc_extra1 = fst (fst (if lod_mode ?g = 0 then ((NoResult, NoResult), ?ld)
                     else load_extras example_ctx (lod_mode ?g) 4
                            (smp_src2 example_ctx ?g) ?ld)),
                fc_extra2 = snd (fst (if lod_mode ?g = 0 then ((NoResult, NoResult), ?ld)
                     else load_extras example_ctx (lod_mode ?g) 4
                            (smp_src2 example_ctx ?g) ?ld))\<rparr> r))"
    using G by blast
  show ?thesis
    using rf rg
    by (simp add: example_defs smp_store_def smp_dest_def smp_src2_def smp_src0_def
        load_extras_def do_fetch_texture_def fetch_coord_F32 image_sample_def
        convert_result_F32 emit_def dest_mask_of_def NoResult_def
        ImageOperandsLodMask_def SWIZZLE_CHANNEL_4_DEFAULT_def)
qed

section \<open>The write mask and the store\<close>

text \<open>
  Claim C8. The write mask is \<^verbatim>\<open>(1 << component_count) - 1\<close>: 1, 3, 7 and 15 for the
  counts 1, 2, 3 and 4. In the SMP handler the count is that of the sampler bound at the
  sampler index: an SMP instruction that reaches the fetch and whose sideband mode is 0,
  1 or 3 ends with one store of the unchanged fetch result to the destination under that
  mask, the same for the three modes, and returns \<^verbatim>\<open>true\<close>. In the query handler the
  count is that of the query: \<^verbatim>\<open>do_texture_queries\<close> makes one store for each query, in
  order, under the mask of that query's count; a single query ends with the store of its
  fetch result. The query handler returns whenever the assertion of the fetch emitter
  holds.
\<close>

theorem dest_mask_and_store:
  "(n \<in> {1, 2, 3, 4} \<longrightarrow> unat (dest_mask_of n) = 2 ^ n - 1) \<and>
   dest_mask_of 1 = 1 \<and> dest_mask_of 2 = 3 \<and> dest_mask_of 3 = 7 \<and> dest_mask_of 4 = 15 \<and>
   (smp_operands c f tr = Inr (Fetch a, tr1) \<and>
    do_fetch_texture c (s_id (fc_sampler a)) (fc_coord a, F32) F32 (uint (lod_mode f))
      (fc_extra1 a) (fc_extra2 a) tr1 = Inr (result, tr2) \<and>
    (sb_mode f = 0 \<or> sb_mode f = 1 \<or> sb_mode f = 3) \<longrightarrow>
    samplers c (num (smp_src1 c f)) = Some (fc_sampler a) \<and>
    smp c f tr =
      Inr (True, tr2 @ [Store (fc_dest a) result
                          (dest_mask_of (s_component_count (fc_sampler a)))])) \<and>
   (do_texture_queries c qs tq = Inr tq' \<longrightarrow>
    map (\<lambda>(opr, v, m). m) (stores tq') =
      map (\<lambda>(opr, v, m). m) (stores tq) @
      map (\<lambda>q. dest_mask_of (q_component_count q)) qs) \<and>
   (store_op = (default_operand c)\<lparr>bank := PRIMATTR, swizzle := SWIZZLE_CHANNEL_4_DEFAULT\<rparr> \<and>
    query_coord c q tq = ((coord_inst, proj), tq1) \<and>
    do_fetch_texture c (q_sampler q) coord_inst (type (query_store_op store_op q))
      (if proj then 4 else 0) 0 NoResult tq1 = Inr (fetch_result, tq2) \<longrightarrow>
    do_texture_queries c [q] tq =
      Inr (tq2 @ [Store ((query_store_op store_op q)\<lparr>num := q_dest_offset q\<rparr>)
                    fetch_result (dest_mask_of (q_component_count q))])) \<and>
   ((\<forall>t i. contained_type_is_float c t i) \<longrightarrow>
    (\<exists>r. do_texture_queries c qs tq = Inr r))"
proof -
  have m: "dest_mask_of 1 = 1 \<and> dest_mask_of 2 = 3 \<and> dest_mask_of 3 = 7 \<and>
           dest_mask_of 4 = 15"
    by (simp add: dest_mask_of_def)
  have u: "unat (dest_mask_of n) = 2 ^ n - 1" if "n \<in> {1, 2, 3, 4}"
    using that m by auto
  have b: "samplers c (num (smp_src1 c f)) = Some (fc_sampler a)"
    if "smp_operands c f tr = Inr (Fetch a, tr1)"
    using smp_operands_fetch [OF that] by simp
  have s: "smp c f tr =
      Inr (True, tr2 @ [Store (fc_dest a) result
                          (dest_mask_of (s_component_count (fc_sampler a)))])"
    if "smp_operands c f tr = Inr (Fetch a, tr1)"
       "do_fetch_texture c (s_id (fc_sampler a)) (fc_coord a, F32) F32 (uint (lod_mode f))
          (fc_extra1 a) (fc_extra2 a) tr1 = Inr (result, tr2)"
       "sb_mode f = 0 \<or> sb_mode f = 1 \<or> sb_mode f = 3"
    using that by (auto simp add: smp_def smp_store_def)
  have l: "map (\<lambda>(opr, v, m). m) (stores tq') =
      map (\<lambda>(opr, v, m). m) (stores tq) @
      map (\<lambda>q. dest_mask_of (q_component_count q)) qs"
    if "do_texture_queries c qs tq = Inr tq'"
  proof -
    have "map (\<lambda>x. snd (snd x)) (map (\<lambda>(opr, v, m). (type opr, num opr, m)) (stores tq')) =
          map (\<lambda>x. snd (snd x))
            (map (\<lambda>(opr, v, m). (type opr, num opr, m)) (stores tq) @
             map (\<lambda>q. (if q_store_type q = UNK then q_component_type q else q_store_type q,
                       q_dest_offset q, dest_mask_of (q_component_count q))) qs)"
      using texture_queries_loop_stores [OF that [unfolded do_texture_queries_def]] by simp
    then show ?thesis
      by (simp add: comp_def split_def)
  qed
  have q: "do_texture_queries c [q] tq =
      Inr (tq2 @ [Store ((query_store_op store_op q)\<lparr>num := q_dest_offset q\<rparr>)
                    fetch_result (dest_mask_of (q_component_count q))])"
    if "store_op = (default_operand c)\<lparr>bank := PRIMATTR, swizzle := SWIZZLE_CHANNEL_4_DEFAULT\<rparr>"
       "query_coord c q tq = ((coord_inst, proj), tq1)"
       "do_fetch_texture c (q_sampler q) coord_inst (type (query_store_op store_op q))
          (if proj then 4 else 0) 0 NoResult tq1 = Inr (fetch_result, tq2)"
    using that by (simp add: do_texture_queries_def)
  have t: "\<exists>r. do_texture_queries c qs tq = Inr r" if "\<forall>t i. contained_type_is_float c t i"
    using texture_queries_loop_total [OF that] by (simp add: do_texture_queries_def)
  show ?thesis
    using m u b s l q t by blast
qed

theorem dest_mask_and_store_witness:
  "unat (dest_mask_of 3) = 7 \<and>
   smp example_ctx (example_fields\<lparr>sb_mode := 3\<rparr>) [] =
     Inr (True,
          [LogDisasm 2 example_dest example_src0 3 example_src1 None,
           SetLine 7, Load example_src0 3 0,
           CreateLoad 50, CreateOp OpImageSampleImplicitLod 204 [4, 3],
           Store example_dest 5 15]) \<and>
   do_texture_queries example_ctx [example_query] [] =
     Inr [CreateLoad 50, CreateOp OpImageSampleImplicitLod 204 [1, 9],
          ConvertToInt 2 (IntKind 0) True,
          Store \<lparr>num = 2, bank = PRIMATTR, type = IntKind 0,
                 swizzle = SWIZZLE_CHANNEL_4_DEFAULT\<rparr> 3 7] \<and>
   map (\<lambda>(opr, v, m). m)
     (stores [CreateLoad 50, CreateOp OpImageSampleImplicitLod 204 [1, 9],
              ConvertToInt 2 (IntKind 0) True,
              Store \<lparr>num = 2, bank = PRIMATTR, type = IntKind 0,
                     swizzle = SWIZZLE_CHANNEL_4_DEFAULT\<rparr> 3 7]) = [7]"
proof -
  let ?f = "example_fields\<lparr>sb_mode := 3\<rparr>"
  let ?ld = "[LogDisasm 2 example_dest example_src0 3 example_src1 None,
              SetLine 7, Load example_src0 3 0]"
  let ?a = "\<lparr>fc_sampler = example_sampler, fc_dest = example_dest, fc_coord = 3,
             fc_extra1 = NoResult, fc_extra2 = NoResult\<rparr>"
  let ?so = "(default_operand example_ctx)
               \<lparr>bank := PRIMATTR, swizzle := SWIZZLE_CHANNEL_4_DEFAULT\<rparr>"
  let ?qf = "[CreateLoad 50, CreateOp OpImageSampleImplicitLod 204 [1, 9],
              ConvertToInt 2 (IntKind 0) True]"
  let ?qt = "?qf @ [Store \<lparr>num = 2, bank = PRIMATTR, type = IntKind 0,
                           swizzle = SWIZZLE_CHANNEL_4_DEFAULT\<rparr> 3 7]"
  note T = dest_mask_and_store [of 3 example_ctx ?f "[]" ?a ?ld 5
      "?ld @ [CreateLoad 50, CreateOp OpImageSampleImplicitLod 204 [4, 3]]"
      "[example_query]" "[]" ?qt ?so example_query "(9, F32)" False "[]" 3 ?qf]
  have h1: "(3 :: nat) \<in> {1, 2, 3, 4}"
    by simp
  have h2: "smp_operands example_ctx ?f [] = Inr (Fetch ?a, ?ld) \<and>
      do_fetch_texture example_ctx (s_id (fc_sampler ?a)) (fc_coord ?a, F32) F32
        (uint (lod_mode ?f)) (fc_extra1 ?a) (fc_extra2 ?a) ?ld =
        Inr (5, ?ld @ [CreateLoad 50, CreateOp OpImageSampleImplicitLod 204 [4, 3]]) \<and>
      (sb_mode ?f = 0 \<or> sb_mode ?f = 1 \<or> sb_mode ?f = 3)"
    by (simp add: example_defs smp_operands_def smp_load_coord_def smp_disasm_def
        smp_dest_def smp_src0_def smp_src1_def coord_mask_of_def emit_def Let_def
        tb_dest_fmt_at_def tb_dest_fmt_def NoResult_def SWIZZLE_CHANNEL_4_DEFAULT_def
        do_fetch_texture_def fetch_coord_F32 image_sample_def convert_result_F32)
  have h3: "?so = (default_operand example_ctx)
                    \<lparr>bank := PRIMATTR, swizzle := SWIZZLE_CHANNEL_4_DEFAULT\<rparr> \<and>
      query_coord example_ctx example_query [] = (((9, F32), False), []) \<and>
      do_fetch_texture example_ctx (q_sampler example_query) (9, F32)
        (type (query_store_op ?so example_query)) (if False then 4 else 0) 0 NoResult [] =
        Inr (3, ?qf)"
    by (simp add: example_defs query_coord_def do_fetch_texture_def fetch_coord_F32
        image_sample_def convert_result_def query_store_op_def emit_def NoResult_def)
  have h4: "\<forall>t i. contained_type_is_float example_ctx t i"
    by (simp add: example_ctx_def)
  have c1: "unat (dest_mask_of 3) = 2 ^ 3 - 1"
    using T h1 by blast
  have c2: "smp example_ctx ?f [] =
      Inr (True, (?ld @ [CreateLoad 50, CreateOp OpImageSampleImplicitLod 204 [4, 3]]) @
                 [Store (fc_dest ?a) 5 (dest_mask_of (s_component_count (fc_sampler ?a)))])"
    using T h2 by blast
  have c3: "do_texture_queries example_ctx [example_query] [] =
      Inr (?qf @ [Store ((query_store_op ?so example_query)
                           \<lparr>num := q_dest_offset example_query\<rparr>)
                    3 (dest_mask_of (q_component_count example_query))])"
    using T h3 by blast
  have c3': "do_texture_queries example_ctx [example_query] [] = Inr ?qt"
    using c3 by (simp add: example_defs query_store_op_def dest_mask_of_def)
  have c4: "map (\<lambda>(opr, v, m). m) (stores ?qt) =
      map (\<lambda>(opr, v, m). m) (stores []) @
      map (\<lambda>q. dest_mask_of (q_component_count q)) [example_query]"
    using T c3' by blast
  have c5: "\<exists>r. do_texture_queries example_ctx [example_query] [] = Inr r"
    using T h4 by blast
  show ?thesis
    using c1 c2 c3' c4 c5
    by (simp add: example_defs dest_mask_of_def stores_simps)
qed

section \<open>The destination element type\<close>

text \<open>
  Claim C7, amended. When the table entry selected by \<^verbatim>\<open>fconv_type\<close> is UNK (the entry
  of index 1), the destination type of an SMP instruction that reaches the fetch is the
  component type of the sampler bound at the sampler index, and that destination is the
  operand of the store that \<^verbatim>\<open>smp\<close> makes; in the query handler, when the store type
  of a query is UNK the type of its store operand is the component type of the query, for
  every query of the list given to \<^verbatim>\<open>do_texture_queries\<close>. These equalities hold
  whatever the component type is. The resolved type is not UNK provided that this
  component type is itself not UNK: the fallback is taken as it is.
\<close>

theorem dest_type_resolution:
  "tb_dest_fmt_at 1 = Some UNK \<and>
   (smp_operands c f tr = Inr (Fetch a, tr1) \<and> tb_dest_fmt_at (fconv_type f) = Some t \<longrightarrow>
    samplers c (num (smp_src1 c f)) = Some (fc_sampler a) \<and>
    type (fc_dest a) = (if t = UNK then s_component_type (fc_sampler a) else t) \<and>
    (s_component_type (fc_sampler a) \<noteq> UNK \<longrightarrow> type (fc_dest a) \<noteq> UNK)) \<and>
   (smp_operands c f tr = Inr (Fetch a, tr1) \<and>
    do_fetch_texture c (s_id (fc_sampler a)) (fc_coord a, F32) F32 (uint (lod_mode f))
      (fc_extra1 a) (fc_extra2 a) tr1 = Inr (result, tr2) \<and>
    (sb_mode f = 0 \<or> sb_mode f = 1 \<or> sb_mode f = 3) \<longrightarrow>
    smp c f tr =
      Inr (True, tr2 @ [Store (fc_dest a) result
                          (dest_mask_of (s_component_count (fc_sampler a)))])) \<and>
   type (query_store_op store_op q) =
     (if q_store_type q = UNK then q_component_type q else q_store_type q) \<and>
   (q_component_type q \<noteq> UNK \<longrightarrow> type (query_store_op store_op q) \<noteq> UNK) \<and>
   (do_texture_queries c qs tq = Inr tq' \<longrightarrow>
    map (\<lambda>(opr, v, m). type opr) (stores tq') =
      map (\<lambda>(opr, v, m). type opr) (stores tq) @
      map (\<lambda>q. if q_store_type q = UNK then q_component_type q else q_store_type q) qs)"
proof -
  have e: "tb_dest_fmt_at 1 = Some UNK"
    by (simp add: tb_dest_fmt_at_def tb_dest_fmt_def)
  have b: "samplers c (num (smp_src1 c f)) = Some (fc_sampler a)"
    if "smp_operands c f tr = Inr (Fetch a, tr1)"
    using smp_operands_fetch [OF that] by simp
  have d: "type (fc_dest a) = (if t = UNK then s_component_type (fc_sampler a) else t)"
    if "smp_operands c f tr = Inr (Fetch a, tr1)" "tb_dest_fmt_at (fconv_type f) = Some t"
    using smp_operands_fetch [OF that(1)] that(2) by (simp add: smp_dest_def)
  have s: "smp c f tr =
      Inr (True, tr2 @ [Store (fc_dest a) result
                          (dest_mask_of (s_component_count (fc_sampler a)))])"
    if "smp_operands c f tr = Inr (Fetch a, tr1)"
       "do_fetch_texture c (s_id (fc_sampler a)) (fc_coord a, F32) F32 (uint (lod_mode f))
          (fc_extra1 a) (fc_extra2 a) tr1 = Inr (result, tr2)"
       "sb_mode f = 0 \<or> sb_mode f = 1 \<or> sb_mode f = 3"
    using that by (auto simp add: smp_def smp_store_def)
  have q: "type (query_store_op store_op q) =
           (if q_store_type q = UNK then q_component_type q else q_store_type q)"
    by (simp add: query_store_op_def)
  have l: "map (\<lambda>(opr, v, m). type opr) (stores tq') =
      map (\<lambda>(opr, v, m). type opr) (stores tq) @
      map (\<lambda>q. if q_store_type q = UNK then q_component_type q else q_store_type q) qs"
    if "do_texture_queries c qs tq = Inr tq'"
  proof -
    have "map fst (map (\<lambda>(opr, v, m). (type opr, num opr, m)) (stores tq')) =
          map fst
            (map (\<lambda>(opr, v, m). (type opr, num opr, m)) (stores tq) @
             map (\<lambda>q. (if q_store_type q = UNK then q_component_type q else q_store_type q,
                       q_dest_offset q, dest_mask_of (q_component_count q))) qs)"
      using texture_queries_loop_stores [OF that [unfolded do_texture_queries_def]] by simp
    then show ?thesis
      by (simp add: comp_def split_def)
  qed
  have n1: "type (fc_dest a) \<noteq> UNK"
    if "smp_operands c f tr = Inr (Fetch a, tr1)" "tb_dest_fmt_at (fconv_type f) = Some t"
       "s_component_type (fc_sampler a) \<noteq> UNK"
    using d [OF that(1,2)] that(3) by auto
  have n2: "type (query_store_op store_op q) \<noteq> UNK" if "q_component_type q \<noteq> UNK"
    using q that by auto
  show ?thesis
    using e b d s q l n1 n2 by blast
qed

theorem dest_type_resolution_witness:
  "smp example_ctx (example_fields\<lparr>src1_n := 1, fconv_type := 1\<rparr>) [] =
     Inr (True,
          [LogDisasm 2 (example_dest\<lparr>type := IntKind 0\<rparr>) example_src0 3
             (example_src1\<lparr>num := 1\<rparr>) None,
           SetLine 7, Load example_src0 3 0,
           CreateLoad 51, CreateOp OpImageSampleImplicitLod 204 [4, 3],
           Store (example_dest\<lparr>type := IntKind 0\<rparr>) 5 7]) \<and>
   type (example_dest\<lparr>type := IntKind 0\<rparr>) =
     s_component_type \<lparr>s_id = 51, s_component_type = IntKind 0, s_component_count = 3\<rparr> \<and>
   type (query_store_op example_dest example_query) = IntKind 0 \<and>
   do_texture_queries example_ctx [example_query] [] =
     Inr [CreateLoad 50, CreateOp OpImageSampleImplicitLod 204 [1, 9],
          ConvertToInt 2 (IntKind 0) True,
          Store \<lparr>num = 2, bank = PRIMATTR, type = IntKind 0,
                 swizzle = SWIZZLE_CHANNEL_4_DEFAULT\<rparr> 3 7] \<and>
   map (\<lambda>(opr, v, m). type opr)
     (stores [CreateLoad 50, CreateOp OpImageSampleImplicitLod 204 [1, 9],
              ConvertToInt 2 (IntKind 0) True,
              Store \<lparr>num = 2, bank = PRIMATTR, type = IntKind 0,
                     swizzle = SWIZZLE_CHANNEL_4_DEFAULT\<rparr> 3 7]) = [IntKind 0]"
proof -
  let ?f = "example_fields\<lparr>src1_n := 1, fconv_type := 1\<rparr>"
  let ?d = "example_dest\<lparr>type := IntKind 0\<rparr>"
  let ?s = "\<lparr>s_id = 51, s_component_type = IntKind 0, s_component_count = 3\<rparr>"
  let ?a = "\<lparr>fc_sampler = ?s, fc_dest = ?d, fc_coord = 3, fc_extra1 = NoResult,
             fc_extra2 = NoResult\<rparr>"
  let ?ld = "[LogDisasm 2 ?d example_src0 3 (example_src1\<lparr>num := 1\<rparr>) None,
              SetLine 7, Load example_src0 3 0]"
  let ?fe = "?ld @ [CreateLoad 51, CreateOp OpImageSampleImplicitLod 204 [4, 3]]"
  let ?qt = "[CreateLoad 50, CreateOp OpImageSampleImplicitLod 204 [1, 9],
              ConvertToInt 2 (IntKind 0) True,
              Store \<lparr>num = 2, bank = PRIMATTR, type = IntKind 0,
                     swizzle = SWIZZLE_CHANNEL_4_DEFAULT\<rparr> 3 7]"
  note T = dest_type_resolution [of example_ctx ?f "[]" ?a ?ld UNK 5 ?fe example_dest
      example_query "[example_query]" "[]" ?qt]
  have h1: "smp_operands example_ctx ?f [] = Inr (Fetch ?a, ?ld)"
    by (simp add: example_defs smp_operands_def smp_load_coord_def smp_disasm_def
        smp_dest_def smp_src0_def smp_src1_def coord_mask_of_def emit_def Let_def
        tb_dest_fmt_at_def tb_dest_fmt_def NoResult_def SWIZZLE_CHANNEL_4_DEFAULT_def)
  have h2: "tb_dest_fmt_at (fconv_type ?f) = Some UNK"
    by (simp add: tb_dest_fmt_at_def tb_dest_fmt_def)
  have h3: "s_component_type (fc_sampler ?a) \<noteq> UNK"
    by simp
  have h4: "q_component_type example_query \<noteq> UNK"
    by (simp add: example_query_def)
  have h5: "do_fetch_texture example_ctx (s_id (fc_sampler ?a)) (fc_coord ?a, F32) F32
      (uint (lod_mode ?f)) (fc_extra1 ?a) (fc_extra2 ?a) ?ld = Inr (5, ?fe)"
    by (simp add: example_defs do_fetch_texture_def fetch_coord_F32 image_sample_def
        convert_result_F32 emit_def)
  have h6: "sb_mode ?f = 0 \<or> sb_mode ?f = 1 \<or> sb_mode ?f = 3"
    by (simp add: example_fields_def)
  have h7: "do_texture_queries example_ctx [example_query] [] = Inr ?qt"
    by (simp add: example_defs do_texture_queries_def query_store_op_def query_coord_def
        do_fetch_texture_def fetch_coord_F32 image_sample_def convert_result_def emit_def
        dest_mask_of_def NoResult_def)
  have c1: "type (fc_dest ?a) = (if UNK = UNK then s_component_type (fc_sampler ?a) else UNK)"
    using T h1 h2 by blast
  have c2: "type (fc_dest ?a) \<noteq> UNK"
    using T h1 h2 h3 by blast
  have c3: "smp example_ctx ?f [] =
      Inr (True, ?fe @ [Store (fc_dest ?a) 5
                          (dest_mask_of (s_component_count (fc_sampler ?a)))])"
    using T h1 h5 h6 by blast
  have c4: "type (query_store_op example_dest example_query) =
      (if q_store_type example_query = UNK then q_component_type example_query
       else q_store_type example_query)"
    using T by blast
  have c5: "type (query_store_op example_dest example_query) \<noteq> UNK"
    using T h4 by blast
  have c6: "map (\<lambda>(opr, v, m). type opr) (stores ?qt) =
      map (\<lambda>(opr, v, m). type opr) (stores []) @
      map (\<lambda>q. if q_store_type q = UNK then q_component_type q else q_store_type q)
        [example_query]"
    using T h7 by blast
  have run: "smp example_ctx ?f [] = Inr (True, ?fe @ [Store ?d 5 7])"
    using c3 by (simp add: dest_mask_of_def)
  show ?thesis
    using c1 c2 c4 c5 c6 h7 run
    by (simp add: example_query_def stores_simps)
qed

text \<open>
  Claim C7 as stated fails where the component type is UNK itself: with sampler 2 of
  \<open>example_ctx\<close> and \<^verbatim>\<open>fconv_type\<close> 1 the store of the SMP handler gets a destination of
  type UNK, and a query with store type and component type UNK is fetched and stored
  with type UNK.
\<close>

theorem dest_type_unk_counterexample:
  "smp example_ctx (example_fields\<lparr>src1_n := 2, fconv_type := 1\<rparr>) [] =
     Inr (True,
          [LogDisasm 2 (example_dest\<lparr>type := UNK\<rparr>) example_src0 3
             (example_src1\<lparr>num := 2\<rparr>) None,
           SetLine 7, Load example_src0 3 0,
           CreateLoad 52, CreateOp OpImageSampleImplicitLod 204 [4, 3],
           Store (example_dest\<lparr>type := UNK\<rparr>) 5 15]) \<and>
   do_texture_queries example_ctx [example_query\<lparr>q_component_type := UNK\<rparr>] [] =
     Inr [CreateLoad 50, CreateOp OpImageSampleImplicitLod 204 [1, 9],
          Store \<lparr>num = 2, bank = PRIMATTR, type = UNK,
                 swizzle = SWIZZLE_CHANNEL_4_DEFAULT\<rparr> 2 7]"
  by (simp add: example_defs smp_def smp_operands_def smp_load_coord_def smp_disasm_def
      smp_dest_def smp_src0_def smp_src1_def coord_mask_of_def emit_def Let_def
      tb_dest_fmt_at_def tb_dest_fmt_def NoResult_def SWIZZLE_CHANNEL_4_DEFAULT_def
      do_fetch_texture_def fetch_coord_F32 image_sample_def convert_result_def
      smp_store_def dest_mask_of_def do_texture_queries_def query_store_op_def
      query_coord_def)


section \<open>The destination type given to the fetch emitter by the SMP handler\<close>

text \<open>
  Claim C1, amended. An SMP instruction that reaches the fetch step invokes the fetch
  emitter with the destination type F32, whatever the resolved destination type is. The
  emitter therefore converts nothing on this path: the handler makes no call of
  \<^verbatim>\<open>utils::convert_to_int\<close> at all, and what it hands to the store is the sample as
  created. The resolved type travels only in the destination operand of the store. (Called
  with the resolved type, the emitter would have given the converted sample, as it does
  for the texture queries.)
\<close>

theorem smp_fetches_as_f32:
  assumes "smp_operands c f tr = Inr (Fetch a, tr1)"
    and "fetch_coord c (fc_coord a, F32) tr1 = (cid, tr2)"
    and "contained_type_is_float c tr2 cid"
    and "r = image_sample c (s_id (fc_sampler a)) cid (uint (lod_mode f))
               (fc_extra1 a) (fc_extra2 a) tr2"
  shows "smp c f tr = Inr (smp_store f a r) \<and>
         filter is_convert (snd (smp_store f a r)) = filter is_convert tr \<and>
         do_fetch_texture c (s_id (fc_sampler a)) (fc_coord a, F32) (type (fc_dest a))
           (uint (lod_mode f)) (fc_extra1 a) (fc_extra2 a) tr1 =
         Inr (convert_result c (type (fc_dest a)) r)"
proof -
  have "filter is_convert tr2 = filter is_convert tr1"
    using assms(2) by (auto simp add: fetch_coord_F32 emit_def split: if_splits)
  then have "filter is_convert (snd r) = filter is_convert tr"
    using smp_operands_no_convert [OF assms(1)]
    by (simp add: assms(4) image_sample_no_convert)
  then show ?thesis
    using assms
    by (simp add: smp_def do_fetch_texture_def convert_result_F32 smp_store_no_convert)
qed

theorem smp_fetches_as_f32_witness:
  "smp example_ctx (example_fields\<lparr>src1_n := 1, fconv_type := 1, sb_mode := 1\<rparr>) [] =
     Inr (True,
          [LogDisasm 2 (example_dest\<lparr>type := IntKind 0\<rparr>) example_src0 3
             (example_src1\<lparr>num := 1\<rparr>) None,
           SetLine 7, Load example_src0 3 0,
           CreateLoad 51, CreateOp OpImageSampleImplicitLod 204 [4, 3],
           Store (example_dest\<lparr>type := IntKind 0\<rparr>) 5 7])"
proof -
  let ?f = "example_fields\<lparr>src1_n := 1, fconv_type := 1, sb_mode := 1\<rparr>"
  let ?d = "example_dest\<lparr>type := IntKind 0\<rparr>"
  let ?a = "\<lparr>fc_sampler = \<lparr>s_id = 51, s_component_type = IntKind 0,
                             s_component_count = 3\<rparr>,
             fc_dest = ?d, fc_coord = 3, fc_extra1 = NoResult, fc_extra2 = NoResult\<rparr>"
  let ?ld = "[LogDisasm 2 ?d example_src0 3 (example_src1\<lparr>num := 1\<rparr>) None,
              SetLine 7, Load example_src0 3 0]"
  have h1: "smp_operands example_ctx ?f [] = Inr (Fetch ?a, ?ld)"
    by (simp add: example_defs smp_operands_def smp_load_coord_def smp_disasm_def
        smp_dest_def smp_src0_def smp_src1_def coord_mask_of_def emit_def Let_def
        tb_dest_fmt_at_def tb_dest_fmt_def NoResult_def SWIZZLE_CHANNEL_4_DEFAULT_def)
  have h2: "fetch_coord example_ctx (fc_coord ?a, F32) ?ld = (3, ?ld)"
    by (simp add: fetch_coord_F32 example_ctx_def)
  have h3: "contained_type_is_float example_ctx ?ld 3"
    by (simp add: example_ctx_def)
  show ?thesis
    using smp_fetches_as_f32 [OF h1 h2 h3 refl]
    by (simp add: example_defs image_sample_def smp_store_def dest_mask_of_def emit_def)
qed

text \<open>
  Claim C1 as stated fails on an integer destination: with sampler 1 of \<open>example_ctx\<close>
  (component type an integer kind) and \<^verbatim>\<open>fconv_type\<close> 1 the resolved destination type
  is that integer kind, and the handler stores the result 5 of the sampling instruction
  itself; no conversion stands between the sample and the store. The fetch emitter
  invoked at the same point with the resolved type would have converted the sample and
  returned the result 6 of the conversion.
\<close>

theorem smp_integer_dest_counterexample:
  "is_integer_data_type (type (example_dest\<lparr>type := IntKind 0\<rparr>)) \<and>
   smp example_ctx (example_fields\<lparr>src1_n := 1, fconv_type := 1\<rparr>) [] =
     Inr (True,
          [LogDisasm 2 (example_dest\<lparr>type := IntKind 0\<rparr>) example_src0 3
             (example_src1\<lparr>num := 1\<rparr>) None,
           SetLine 7, Load example_src0 3 0,
           CreateLoad 51, CreateOp OpImageSampleImplicitLod 204 [4, 3],
           Store (example_dest\<lparr>type := IntKind 0\<rparr>) 5 7]) \<and>
   do_fetch_texture example_ctx 51 (3, F32) (IntKind 0) 0 NoResult NoResult
     [LogDisasm 2 (example_dest\<lparr>type := IntKind 0\<rparr>) example_src0 3
        (example_src1\<lparr>num := 1\<rparr>) None,
      SetLine 7, Load example_src0 3 0] =
     Inr (6,
          [LogDisasm 2 (example_dest\<lparr>type := IntKind 0\<rparr>) example_src0 3
             (example_src1\<lparr>num := 1\<rparr>) None,
           SetLine 7, Load example_src0 3 0,
           CreateLoad 51, CreateOp OpImageSampleImplicitLod 204 [4, 3],
           ConvertToInt 5 (IntKind 0) True])"
  by (simp add: example_defs smp_def smp_operands_def smp_load_coord_def smp_disasm_def
      smp_dest_def smp_src0_def smp_src1_def coord_mask_of_def emit_def Let_def
      tb_dest_fmt_at_def tb_dest_fmt_def NoResult_def SWIZZLE_CHANNEL_4_DEFAULT_def
      do_fetch_texture_def fetch_coord_F32 image_sample_def convert_result_def
      smp_store_def dest_mask_of_def)


end
